theory Spec2Isabelle
  imports Main
begin

section \<open>JavaScript values used by the desktop application\<close>

text \<open>
  Strings are lists of characters. The model's alphabet is ASCII; \<open>trim\<close> removes the
  ASCII white space of JavaScript's \<open>String.prototype.trim\<close> (tab, line feed, vertical
  tab, form feed, carriage return, space) from both ends.
\<close>

definition is_space :: "char \<Rightarrow> bool" where
  "is_space c =
     (c = CHR 0x09 \<or> c = CHR 0x0A \<or> c = CHR 0x0B \<or> c = CHR 0x0C \<or> c = CHR 0x0D \<or> c = CHR '' '')"

definition trim :: "string \<Rightarrow> string" where
  "trim s = rev (dropWhile is_space (rev (dropWhile is_space s)))"

definition is_digit :: "char \<Rightarrow> bool" where
  "is_digit c = (c = CHR ''0'' \<or> c = CHR ''1'' \<or> c = CHR ''2'' \<or> c = CHR ''3'' \<or> c = CHR ''4''
     \<or> c = CHR ''5'' \<or> c = CHR ''6'' \<or> c = CHR ''7'' \<or> c = CHR ''8'' \<or> c = CHR ''9'')"

text \<open>ASCII lower-casing, as the \<open>i\<close> flag of a regular expression over ASCII letters needs it.\<close>

definition lower :: "char \<Rightarrow> char" where
  "lower c =
     (case map_of (zip ''ABCDEFGHIJKLMNOPQRSTUVWXYZ'' ''abcdefghijklmnopqrstuvwxyz'') c of
        Some l \<Rightarrow> l
      | None \<Rightarrow> c)"

text \<open>Decimal rendering of a number in a template literal or by \<open>String(n)\<close>.\<close>

definition digit_char :: "nat \<Rightarrow> char" where
  "digit_char d = ''0123456789'' ! d"

function show_nat :: "nat \<Rightarrow> string" where
  "show_nat n = (if n < 10 then [digit_char n] else show_nat (n div 10) @ [digit_char (n mod 10)])"
  by pat_completeness auto
termination
  by (relation "measure (\<lambda>n. n)") auto

definition show_int :: "int \<Rightarrow> string" where
  "show_int i = (if i < 0 then CHR ''-'' # show_nat (nat (- i)) else show_nat (nat i))"

text \<open>
  A structured document (the parsed configuration, an event payload). Objects are association
  lists in insertion order; numbers are the integers (a port, a numeric user id).
\<close>

datatype json =
    JNull
  | JBool bool
  | JNum int
  | JStr string
  | JArr "json list"
  | JObj "(string \<times> json) list"

type_synonym obj = "(string \<times> json) list"

text \<open>Reading a property: \<open>None\<close> is JavaScript's \<open>undefined\<close>.\<close>

definition get_prop :: "obj \<Rightarrow> string \<Rightarrow> json option" where
  "get_prop ob k = map_of ob k"

text \<open>
  Writing a property, as an object literal or a spread does: an existing key keeps its place
  and takes the new value, a new key goes last.
\<close>

fun set_prop :: "obj \<Rightarrow> string \<Rightarrow> json \<Rightarrow> obj" where
  "set_prop [] k v = [(k, v)]"
| "set_prop ((k', v') # ob) k v = (if k' = k then (k, v) # ob else (k', v') # set_prop ob k v)"

text \<open>\<open>{...a, ...b}\<close>: the properties of \<open>b\<close> written onto \<open>a\<close> in order.\<close>

definition spread :: "obj \<Rightarrow> obj \<Rightarrow> obj" where
  "spread a b = foldl (\<lambda>ob kv. set_prop ob (fst kv) (snd kv)) a b"

text \<open>
  \<open>String(v)\<close>. An array is its elements joined by commas, where \<open>null\<close> elements are
  empty; an object is \<open>[object Object]\<close>.
\<close>

fun js_String :: "json \<Rightarrow> string" and js_join :: "json list \<Rightarrow> string" where
  "js_String JNull = ''null''"
| "js_String (JBool b) = (if b then ''true'' else ''false'')"
| "js_String (JNum n) = show_int n"
| "js_String (JStr s) = s"
| "js_String (JArr vs) = js_join vs"
| "js_String (JObj ob) = ''[object Object]''"
| "js_join [] = []"
| "js_join [v] = (if v = JNull then [] else js_String v)"
| "js_join (v # w # vs) = (if v = JNull then [] else js_String v) @ '','' @ js_join (w # vs)"

subsection \<open>Helpers of the welcome page\<close>

text \<open>
  \<^verbatim>\<open>function getObject(value: unknown): Record<string, unknown> {
    if (!value || typeof value !== "object" || Array.isArray(value)) { return {}; }
    return value as Record<string, unknown>; }\<close>
\<close>

fun getObject :: "json option \<Rightarrow> obj" where
  "getObject (Some (JObj ob)) = ob"
| "getObject _ = []"

text \<open>
  \<^verbatim>\<open>function getStringArray(value: unknown): string[] {
    if (!Array.isArray(value)) { return []; }
    return value.map((v) => String(v).trim()).filter(Boolean); }\<close>
\<close>

fun getStringArray :: "json option \<Rightarrow> string list" where
  "getStringArray (Some (JArr vs)) = filter (\<lambda>s. s \<noteq> []) (map (\<lambda>v. trim (js_String v)) vs)"
| "getStringArray _ = []"

text \<open>
  \<^verbatim>\<open>function unique(list: string[]): string[] { return Array.from(new Set(list)); }\<close>
  A \<open>Set\<close> keeps its elements in insertion order and ignores the insertion of an element
  it already holds.
\<close>

definition set_add :: "string list \<Rightarrow> string \<Rightarrow> string list" where
  "set_add s x = (if x \<in> set s then s else s @ [x])"

definition unique :: "string list \<Rightarrow> string list" where
  "unique list = foldl set_add [] list"

text \<open>\<open>raw.lastIndexOf(sep)\<close> for a one-character separator; \<open>None\<close> is \<open>-1\<close>.\<close>

fun lastIndexOf :: "string \<Rightarrow> char \<Rightarrow> nat option" where
  "lastIndexOf [] sep = None"
| "lastIndexOf (c # cs) sep =
     (case lastIndexOf cs sep of
        Some i \<Rightarrow> Some (Suc i)
      | None \<Rightarrow> (if c = sep then Some 0 else None))"

text \<open>
  \<^verbatim>\<open>function inferWorkspaceDirFromConfigPath(configPath: string | undefined): string {
    const raw = typeof configPath === "string" ? configPath.trim() : "";
    if (!raw) { return "~/openclaw-workspace"; }
    const sep = raw.includes("\\") ? "\\" : "/";
    const idx = raw.lastIndexOf(sep);
    if (idx <= 0) { return "~/openclaw-workspace"; }
    const dir = raw.slice(0, idx);
    return `${dir}${sep}workspace`; }\<close>
\<close>

definition inferWorkspaceDirFromConfigPath :: "string option \<Rightarrow> string" where
  "inferWorkspaceDirFromConfigPath configPath =
     (let raw = (case configPath of Some p \<Rightarrow> trim p | None \<Rightarrow> [])
      in if raw = [] then ''~/openclaw-workspace''
         else let sep = (if CHR 0x5C \<in> set raw then CHR 0x5C else CHR ''/'')
              in (case lastIndexOf raw sep of
                    None \<Rightarrow> ''~/openclaw-workspace''
                  | Some idx \<Rightarrow>
                      if idx = 0 then ''~/openclaw-workspace''
                      else take idx raw @ [sep] @ ''workspace''))"

section \<open>The Gateway RPC channel as the renderer uses it\<close>

text \<open>
  \<^verbatim>\<open>type ConfigSnapshot = { path?: string; exists?: boolean; valid?: boolean; hash?: string;
    config?: unknown; };\<close>
  An absent field is \<open>None\<close>.
\<close>

record ConfigSnapshot =
  path :: "string option"
  exists :: "bool option"
  valid :: "bool option"
  hash :: "string option"
  config :: "json option"

text \<open>
  The calls of \<open>gw.request(method, params)\<close> that the welcome page makes. The \<open>raw\<close>
  parameter of \<open>config.set\<close> and \<open>config.patch\<close> is \<open>JSON.stringify(doc, null, 2)\<close>; the
  model carries the document \<open>doc\<close> itself.
  \<^item> \<open>ConfigGet\<close>: \<open>"config.get", {}\<close>
  \<^item> \<open>ConfigSet raw\<close>: \<open>"config.set", {raw}\<close>
  \<^item> \<open>ConfigPatch baseHash raw note\<close>: \<open>"config.patch", {baseHash, raw, note}\<close>
  \<^item> \<open>ChannelsStatus timeoutMs\<close>: \<open>"channels.status", {probe: true, timeoutMs}\<close>
\<close>

datatype rpc_request =
    ConfigGet
  | ConfigSet json
  | ConfigPatch string json string
  | ChannelsStatus nat

datatype rpc_response = Snapshot ConfigSnapshot | Result json

text \<open>
  The Gateway behind the channel: any function from its state and a request to a response
  (\<open>Inr\<close>) or a rejection with an error message (\<open>Inl\<close>), and its next state. The renderer
  side keeps, next to the Gateway's state, the list of the requests issued so far.
\<close>

type_synonym 'g gateway = "'g \<Rightarrow> rpc_request \<Rightarrow> (string + rpc_response) \<times> 'g"

record 'g rpc =
  remote :: 'g
  issued :: "rpc_request list"

definition request :: "'g gateway \<Rightarrow> rpc_request \<Rightarrow> 'g rpc \<Rightarrow> (string + rpc_response) \<times> 'g rpc" where
  "request gw req c =
     (case gw (remote c) req of (r, g') \<Rightarrow> (r, \<lparr>remote = g', issued = issued c @ [req]\<rparr>))"

text \<open>The cast \<open>as ConfigSnapshot\<close>: a response of another shape has none of the fields.\<close>

fun as_snapshot :: "rpc_response \<Rightarrow> ConfigSnapshot" where
  "as_snapshot (Snapshot snap) = snap"
| "as_snapshot (Result _) = \<lparr>path = None, exists = None, valid = None, hash = None, config = None\<rparr>"

subsection \<open>The configuration flows of the welcome page\<close>

text \<open>
  Every flow returns the value of its promise: \<open>Inl msg\<close> when it throws (the message of the
  error, or the rejection of an RPC), \<open>Inr v\<close> when it returns \<open>v\<close>. The React state setters
  (\<open>setError\<close>, \<open>setStatus\<close>, \<open>setConfigPath\<close>, ...) only feed the presentation and are
  left out.

  \<^verbatim>\<open>const loadConfig = async () => {
    const snap = (await gw.request("config.get", {})) as ConfigSnapshot; ...; return snap; }\<close>
\<close>

definition loadConfig :: "'g gateway \<Rightarrow> 'g rpc \<Rightarrow> (string + ConfigSnapshot) \<times> 'g rpc" where
  "loadConfig gw c =
     (case request gw ConfigGet c of
        (Inl e, c') \<Rightarrow> (Inl e, c')
      | (Inr r, c') \<Rightarrow> (Inr (as_snapshot r), c'))"

text \<open>
  \<^verbatim>\<open>const baseHash = typeof snap.hash === "string" && snap.hash.trim() ? snap.hash.trim() : null;\<close>
\<close>

definition baseHash :: "ConfigSnapshot \<Rightarrow> string option" where
  "baseHash snap =
     (case hash snap of
        Some h \<Rightarrow> (if trim h \<noteq> [] then Some (trim h) else None)
      | None \<Rightarrow> None)"

definition base_hash_missing :: string where
  "base_hash_missing = ''Config base hash missing. Reload and try again.''"

text \<open>
  The tail shared by the patching flows:
  \<^verbatim>\<open>if (!baseHash) { throw new Error("Config base hash missing. Reload and try again."); }
  await gw.request("config.patch", { baseHash, raw: JSON.stringify(doc, null, 2), note });\<close>
\<close>

definition patch_with_base :: "'g gateway \<Rightarrow> ConfigSnapshot \<Rightarrow> json \<Rightarrow> string \<Rightarrow> 'g rpc \<Rightarrow> (string + unit) \<times> 'g rpc" where
  "patch_with_base gw snap doc note c =
     (case baseHash snap of
        None \<Rightarrow> (Inl base_hash_missing, c)
      | Some h \<Rightarrow>
          (case request gw (ConfigPatch h doc note) c of
             (Inl e, c') \<Rightarrow> (Inl e, c')
           | (Inr _, c') \<Rightarrow> (Inr (), c')))"

text \<open>\<open>typeof v === "string" ? v.trim() : ""\<close>\<close>

fun trimmed_string :: "json option \<Rightarrow> string" where
  "trimmed_string (Some (JStr s)) = trim s"
| "trimmed_string _ = []"

text \<open>
  The local variable \<open>patch\<close> of \<open>ensureExtendedConfig\<close>, for the supervisor's
  \<open>state.port\<close> and \<open>state.token\<close>:
  \<^verbatim>\<open>const cfg = getObject(snap.config);
  const gateway = getObject(cfg.gateway);
  const gatewayAuth = getObject(gateway.auth);
  const agents = getObject(cfg.agents);
  const defaults = getObject(agents.defaults);
  const currentWorkspace = typeof defaults.workspace === "string" ? defaults.workspace.trim() : "";
  const workspace = currentWorkspace || inferWorkspaceDirFromConfigPath(snap.path);
  const patch: Record<string, unknown> = {};
  const authToken = typeof gatewayAuth.token === "string" ? gatewayAuth.token.trim() : "";
  const authMode = typeof gatewayAuth.mode === "string" ? gatewayAuth.mode.trim() : "";
  const port = typeof gateway.port === "number" && Number.isFinite(gateway.port) ? gateway.port : null;
  const bind = typeof gateway.bind === "string" ? gateway.bind.trim() : "";
  const mode = typeof gateway.mode === "string" ? gateway.mode.trim() : "";
  const needsGateway = mode !== "local" || bind !== "loopback" || port !== state.port ||
    authMode !== "token" || authToken !== state.token;
  if (needsGateway) {
    patch.gateway = { ...gateway, mode: "local", bind: "loopback", port: state.port,
      auth: { ...gatewayAuth, mode: "token", token: state.token } };
  }
  if (!currentWorkspace) {
    patch.agents = { ...agents, defaults: { ...defaults, workspace } };
  }\<close>
\<close>

definition needsGateway :: "int \<Rightarrow> string \<Rightarrow> obj \<Rightarrow> bool" where
  "needsGateway state_port state_token gateway =
     (let gatewayAuth = getObject (get_prop gateway ''auth'');
          authToken = trimmed_string (get_prop gatewayAuth ''token'');
          authMode = trimmed_string (get_prop gatewayAuth ''mode'');
          port = (case get_prop gateway ''port'' of Some (JNum n) \<Rightarrow> Some n | _ \<Rightarrow> None);
          bind = trimmed_string (get_prop gateway ''bind'');
          mode = trimmed_string (get_prop gateway ''mode'')
      in mode \<noteq> ''local'' \<or> bind \<noteq> ''loopback'' \<or> port \<noteq> Some state_port \<or>
         authMode \<noteq> ''token'' \<or> authToken \<noteq> state_token)"

definition gateway_section :: "int \<Rightarrow> string \<Rightarrow> obj \<Rightarrow> json" where
  "gateway_section state_port state_token gateway =
     JObj (spread gateway
       [(''mode'', JStr ''local''), (''bind'', JStr ''loopback''), (''port'', JNum state_port),
        (''auth'', JObj (spread (getObject (get_prop gateway ''auth''))
           [(''mode'', JStr ''token''), (''token'', JStr state_token)]))])"

definition ensure_patch :: "int \<Rightarrow> string \<Rightarrow> ConfigSnapshot \<Rightarrow> obj" where
  "ensure_patch state_port state_token snap =
     (let cfg = getObject (config snap);
          gateway = getObject (get_prop cfg ''gateway'');
          agents = getObject (get_prop cfg ''agents'');
          defaults = getObject (get_prop agents ''defaults'');
          currentWorkspace = trimmed_string (get_prop defaults ''workspace'');
          workspace = (if currentWorkspace \<noteq> [] then currentWorkspace
                       else inferWorkspaceDirFromConfigPath (path snap));
          patch0 = (if needsGateway state_port state_token gateway
                    then set_prop [] ''gateway'' (gateway_section state_port state_token gateway)
                    else [])
      in if currentWorkspace = []
         then set_prop patch0 ''agents''
                (JObj (spread agents [(''defaults'', JObj (spread defaults [(''workspace'', JStr workspace)]))]))
         else patch0)"

text \<open>
  \<^verbatim>\<open>const ensureExtendedConfig = async () => {
    const snap = await loadConfig();
    ... (patch, as above)
    if (snap.exists === false) {
      const seeded = { ...cfg, ...patch };
      await gw.request("config.set", { raw: JSON.stringify(seeded, null, 2) });
      setStatus("Config created."); return;
    }
    if (Object.keys(patch).length === 0) { setStatus("Config already looks good."); return; }
    const baseHash = ...; if (!baseHash) { throw new Error("Config base hash missing. ..."); }
    await gw.request("config.patch", { baseHash, raw: JSON.stringify(patch, null, 2),
      note: "Welcome: ensure onboarding defaults (workspace/gateway)" });
    setStatus("Config updated."); }\<close>
\<close>

definition ensureExtendedConfig :: "int \<Rightarrow> string \<Rightarrow> 'g gateway \<Rightarrow> 'g rpc \<Rightarrow> (string + unit) \<times> 'g rpc" where
  "ensureExtendedConfig state_port state_token gw c =
     (case loadConfig gw c of
        (Inl e, c') \<Rightarrow> (Inl e, c')
      | (Inr snap, c') \<Rightarrow>
          (let cfg = getObject (config snap);
               patch = ensure_patch state_port state_token snap
           in if exists snap = Some False then
                (case request gw (ConfigSet (JObj (spread cfg patch))) c' of
                   (Inl e, c'') \<Rightarrow> (Inl e, c'')
                 | (Inr _, c'') \<Rightarrow> (Inr (), c''))
              else if patch = [] then (Inr (), c')
              else patch_with_base gw snap (JObj patch)
                     ''Welcome: ensure onboarding defaults (workspace/gateway)'' c'))"

text \<open>
  \<^verbatim>\<open>const saveApiKey = async (provider: Provider, apiKey: string): Promise<boolean> => {
    if (!apiKey.trim()) { setError("API key is required."); return false; }
    await window.openclawDesktop?.setApiKey(provider, apiKey.trim());
    const snap = await loadConfig();
    const baseHash = ...; if (!baseHash) { throw ... }
    const profileId = `${provider}:default`;
    await gw.request("config.patch", { baseHash, raw: JSON.stringify({ auth: {
      profiles: { [profileId]: { provider, mode: "api_key" } },
      order: { [provider]: [profileId] } } }, null, 2),
      note: `Welcome: enable ${provider} api_key profile` });
    return true; }\<close>
  The outcome of the IPC call \<open>setApiKey\<close> of the main process is the parameter
  \<open>stored\<close> (\<open>Inl\<close> when it rejects).
\<close>

definition saveApiKey :: "string \<Rightarrow> string \<Rightarrow> (string + unit) \<Rightarrow> 'g gateway \<Rightarrow> 'g rpc \<Rightarrow> (string + bool) \<times> 'g rpc" where
  "saveApiKey provider apiKey stored gw c =
     (if trim apiKey = [] then (Inr False, c)
      else case stored of
        Inl e \<Rightarrow> (Inl e, c)
      | Inr _ \<Rightarrow>
          (case loadConfig gw c of
             (Inl e, c') \<Rightarrow> (Inl e, c')
           | (Inr snap, c') \<Rightarrow>
               (let profileId = provider @ '':default''
                in case patch_with_base gw snap
                     (JObj [(''auth'', JObj
                        [(''profiles'', JObj [(profileId,
                            JObj [(''provider'', JStr provider), (''mode'', JStr ''api_key'')])]),
                         (''order'', JObj [(provider, JArr [JStr profileId])])])])
                     (''Welcome: enable '' @ provider @ '' api_key profile'') c' of
                     (Inl e, c'') \<Rightarrow> (Inl e, c'')
                   | (Inr _, c'') \<Rightarrow> (Inr True, c''))))"

text \<open>
  \<^verbatim>\<open>const saveDefaultModel = async (modelId: string): Promise<boolean> => {
    const snap = await loadConfig();
    const baseHash = ...; if (!baseHash) { throw ... }
    await gw.request("config.patch", { baseHash, raw: JSON.stringify({ agents: { defaults: {
      model: { primary: modelId }, models: { [modelId]: {} } } } }, null, 2),
      note: "Welcome: set default model" });
    return true; }\<close>
\<close>

definition saveDefaultModel :: "string \<Rightarrow> 'g gateway \<Rightarrow> 'g rpc \<Rightarrow> (string + bool) \<times> 'g rpc" where
  "saveDefaultModel modelId gw c =
     (case loadConfig gw c of
        (Inl e, c') \<Rightarrow> (Inl e, c')
      | (Inr snap, c') \<Rightarrow>
          (case patch_with_base gw snap
             (JObj [(''agents'', JObj [(''defaults'', JObj
                [(''model'', JObj [(''primary'', JStr modelId)]),
                 (''models'', JObj [(modelId, JObj [])])])])])
             ''Welcome: set default model'' c' of
             (Inl e, c'') \<Rightarrow> (Inl e, c'')
           | (Inr _, c'') \<Rightarrow> (Inr True, c'')))"

text \<open>
  \<^verbatim>\<open>const saveTelegramToken = async (): Promise<boolean> => {
    const token = telegramToken.trim();
    if (!token) { setError("Telegram bot token is required."); return false; }
    const snap = await loadConfig();
    const baseHash = ...; if (!baseHash) { throw ... }
    await gw.request("config.patch", { baseHash, raw: JSON.stringify({ channels: { telegram: {
      enabled: true, botToken: token } } }, null, 2),
      note: "Welcome: configure Telegram bot token" });
    return true; }\<close>
\<close>

definition saveTelegramToken :: "string \<Rightarrow> 'g gateway \<Rightarrow> 'g rpc \<Rightarrow> (string + bool) \<times> 'g rpc" where
  "saveTelegramToken telegramToken gw c =
     (let token = trim telegramToken
      in if token = [] then (Inr False, c)
         else case loadConfig gw c of
           (Inl e, c') \<Rightarrow> (Inl e, c')
         | (Inr snap, c') \<Rightarrow>
             (case patch_with_base gw snap
                (JObj [(''channels'', JObj [(''telegram'', JObj
                   [(''enabled'', JBool True), (''botToken'', JStr token)])])])
                ''Welcome: configure Telegram bot token'' c' of
                (Inl e, c'') \<Rightarrow> (Inl e, c'')
              | (Inr _, c'') \<Rightarrow> (Inr True, c'')))"

text \<open>
  The normalisation of the user id in \<open>saveTelegramAllowFrom\<close>:
  \<^verbatim>\<open>const stripped = raw.replace(/^(telegram|tg):/i, "").trim();
  const id = /^\d+$/.test(stripped) ? stripped : raw;\<close>
\<close>

definition strip_prefix :: "string \<Rightarrow> string" where
  "strip_prefix raw =
     (if map lower (take 9 raw) = ''telegram:'' then drop 9 raw
      else if map lower (take 3 raw) = ''tg:'' then drop 3 raw
      else raw)"

definition normalize_id :: "string \<Rightarrow> string" where
  "normalize_id raw =
     (let stripped = trim (strip_prefix raw)
      in if stripped \<noteq> [] \<and> list_all is_digit stripped then stripped else raw)"

text \<open>The \<open>allowFrom\<close> list that the flow reads from a snapshot, and the one it submits.\<close>

definition existing_allowFrom :: "ConfigSnapshot \<Rightarrow> string list" where
  "existing_allowFrom snap =
     (let cfg = getObject (config snap);
          channels = getObject (get_prop cfg ''channels'');
          telegram = getObject (get_prop channels ''telegram'')
      in getStringArray (get_prop telegram ''allowFrom''))"

definition allowFrom_patch :: "string list \<Rightarrow> json" where
  "allowFrom_patch merged =
     JObj [(''channels'', JObj [(''telegram'', JObj
       [(''enabled'', JBool True), (''dmPolicy'', JStr ''allowlist''),
        (''allowFrom'', JArr (map JStr merged))])])]"

text \<open>
  \<^verbatim>\<open>const saveTelegramAllowFrom = async (): Promise<boolean> => {
    const raw = telegramUserId.trim();
    if (!raw) { setError("Telegram user id is required."); return false; }
    const stripped = ...; const id = ...;
    const snap = await loadConfig();
    const cfg = getObject(snap.config);
    const channels = getObject(cfg.channels);
    const telegram = getObject(channels.telegram);
    const allowFrom = getStringArray(telegram.allowFrom);
    const merged = unique([...allowFrom, id]);
    const baseHash = ...; if (!baseHash) { throw ... }
    await gw.request("config.patch", { baseHash, raw: JSON.stringify({ channels: { telegram: {
      enabled: true, dmPolicy: "allowlist", allowFrom: merged } } }, null, 2),
      note: "Welcome: configure Telegram allowFrom" });
    try {
      const probe = (await gw.request("channels.status", { probe: true, timeoutMs: 12_000 })) ...;
    } catch { /* ignore probe failures; config patch is the primary action */ }
    return true; }\<close>
\<close>

definition saveTelegramAllowFrom :: "string \<Rightarrow> 'g gateway \<Rightarrow> 'g rpc \<Rightarrow> (string + bool) \<times> 'g rpc" where
  "saveTelegramAllowFrom telegramUserId gw c =
     (let raw = trim telegramUserId
      in if raw = [] then (Inr False, c)
         else case loadConfig gw c of
           (Inl e, c') \<Rightarrow> (Inl e, c')
         | (Inr snap, c') \<Rightarrow>
             (let merged = unique (existing_allowFrom snap @ [normalize_id raw])
              in case patch_with_base gw snap (allowFrom_patch merged)
                   ''Welcome: configure Telegram allowFrom'' c' of
                   (Inl e, c'') \<Rightarrow> (Inl e, c'')
                 | (Inr _, c'') \<Rightarrow>
                     (case request gw (ChannelsStatus 12000) c'' of
                        (_, c3) \<Rightarrow> (Inr True, c3))))"

text \<open>
  \<^verbatim>\<open>const ensureGogExecDefaults = async () => {
    const snap = (await gw.request("config.get", {})) as ConfigSnapshot;
    const baseHash = ...; if (!baseHash) { throw ... }
    const cfg = getObject(snap.config);
    const tools = getObject(cfg.tools);
    const exec = getObject(tools.exec);
    const existingSafeBins = getStringArray(exec.safeBins);
    const safeBins = unique([...existingSafeBins, "gog"].map((v) => v.toLowerCase()));
    const host = typeof exec.host === "string" && exec.host.trim() ? exec.host.trim() : "gateway";
    const security = ... exec.security ... : "allowlist";
    const ask = ... exec.ask ... : "on-miss";
    await gw.request("config.patch", { baseHash, raw: JSON.stringify({ tools: { exec: {
      host, security, ask, safeBins } } }, null, 2), note: "Welcome: ensure gog exec defaults" }); }\<close>
\<close>

definition string_or :: "json option \<Rightarrow> string \<Rightarrow> string" where
  "string_or v dflt = (if trimmed_string v \<noteq> [] then trimmed_string v else dflt)"

definition gog_patch :: "ConfigSnapshot \<Rightarrow> json" where
  "gog_patch snap =
     (let cfg = getObject (config snap);
          tools = getObject (get_prop cfg ''tools'');
          exec = getObject (get_prop tools ''exec'');
          existingSafeBins = getStringArray (get_prop exec ''safeBins'');
          safeBins = unique (map (map lower) (existingSafeBins @ [''gog'']))
      in JObj [(''tools'', JObj [(''exec'', JObj
           [(''host'', JStr (string_or (get_prop exec ''host'') ''gateway'')),
            (''security'', JStr (string_or (get_prop exec ''security'') ''allowlist'')),
            (''ask'', JStr (string_or (get_prop exec ''ask'') ''on-miss'')),
            (''safeBins'', JArr (map JStr safeBins))])])])"

definition ensureGogExecDefaults :: "'g gateway \<Rightarrow> 'g rpc \<Rightarrow> (string + unit) \<times> 'g rpc" where
  "ensureGogExecDefaults gw c =
     (case request gw ConfigGet c of
        (Inl e, c') \<Rightarrow> (Inl e, c')
      | (Inr r, c') \<Rightarrow>
          patch_with_base gw (as_snapshot r) (gog_patch (as_snapshot r))
            ''Welcome: ensure gog exec defaults'' c')"

text \<open>
  The six flows of the welcome page that issue \<open>config.patch\<close>, under one type: the value a
  flow returns is dropped, its throwing is kept.
\<close>

datatype flow =
    EnsureExtendedConfig int string
  | SaveApiKey string string "string + unit"
  | SaveDefaultModel string
  | SaveTelegramToken string
  | SaveTelegramAllowFrom string
  | EnsureGogExecDefaults

definition thrown :: "(string + 'a) \<times> 's \<Rightarrow> (string + unit) \<times> 's" where
  "thrown out = (case out of (Inl e, s) \<Rightarrow> (Inl e, s) | (Inr _, s) \<Rightarrow> (Inr (), s))"

fun run_flow :: "flow \<Rightarrow> 'g gateway \<Rightarrow> 'g rpc \<Rightarrow> (string + unit) \<times> 'g rpc" where
  "run_flow (EnsureExtendedConfig state_port state_token) gw c = ensureExtendedConfig state_port state_token gw c"
| "run_flow (SaveApiKey provider apiKey stored) gw c = thrown (saveApiKey provider apiKey stored gw c)"
| "run_flow (SaveDefaultModel modelId) gw c = thrown (saveDefaultModel modelId gw c)"
| "run_flow (SaveTelegramToken telegramToken) gw c = thrown (saveTelegramToken telegramToken gw c)"
| "run_flow (SaveTelegramAllowFrom telegramUserId) gw c = thrown (saveTelegramAllowFrom telegramUserId gw c)"
| "run_flow EnsureGogExecDefaults gw c = ensureGogExecDefaults gw c"

definition is_patch :: "rpc_request \<Rightarrow> bool" where
  "is_patch req = (case req of ConfigPatch _ _ _ \<Rightarrow> True | _ \<Rightarrow> False)"

subsection \<open>The Gateway's side of the configuration protocol\<close>

text \<open>
  Modelled from the spec: the Gateway's handlers of \<open>config.get\<close>, \<open>config.set\<close> and
  \<open>config.patch\<close> are not among the sources (the renderer only calls them). The spec, sections
  3 and 4.3: the snapshot's \<open>hash\<close> is a content fingerprint of the persisted configuration;
  a seed is written as a full document and always succeeds; a patch is accepted only if its
  \<open>baseHash\<close> equals the configuration's current hash at apply time, otherwise it is
  rejected with the error "base hash missing/stale" and no mutation occurs; an accepted patch is
  merged into the configuration, nested objects key by key, any other value replacing the prior
  one. The fingerprint function is a parameter.
\<close>

record ConfigFile =
  file_path :: string
  present :: bool
  document :: json

fun merge :: "json \<Rightarrow> json \<Rightarrow> json" and merge_obj :: "obj \<Rightarrow> obj \<Rightarrow> obj" where
  "merge (JObj a) (JObj b) = JObj (merge_obj a b)"
| "merge old new = new"
| "merge_obj a [] = a"
| "merge_obj a ((k, v) # b) =
     merge_obj (set_prop a k (case map_of a k of Some old \<Rightarrow> merge old v | None \<Rightarrow> v)) b"

definition base_hash_stale :: string where
  "base_hash_stale = ''base hash missing/stale''"

definition config_gateway :: "(json \<Rightarrow> string) \<Rightarrow> ConfigFile gateway" where
  "config_gateway fingerprint st req =
     (case req of
        ConfigGet \<Rightarrow>
          (Inr (Snapshot \<lparr>path = Some (file_path st), exists = Some (present st), valid = Some True,
                          hash = Some (fingerprint (document st)), config = Some (document st)\<rparr>), st)
      | ConfigSet raw \<Rightarrow> (Inr (Result JNull), st\<lparr>present := True, document := raw\<rparr>)
      | ConfigPatch h raw note \<Rightarrow>
          (if h = fingerprint (document st)
           then (Inr (Result JNull), st\<lparr>present := True, document := merge (document st) raw\<rparr>)
           else (Inl base_hash_stale, st))
      | ChannelsStatus t \<Rightarrow> (Inr (Result (JObj [])), st))"

text \<open>
  Modelled from the spec (section 5: the configuration file is mutated by potentially
  concurrent callers): the same Gateway when another caller replaces the persisted document
  with \<open>other\<close> right after this caller's \<open>config.get\<close> was served.
\<close>

definition racing_gateway :: "(json \<Rightarrow> string) \<Rightarrow> json \<Rightarrow> ConfigFile gateway" where
  "racing_gateway fingerprint other st req =
     (case config_gateway fingerprint st req of
        (r, st') \<Rightarrow> (r, if req = ConfigGet then st'\<lparr>document := other\<rparr> else st'))"

section \<open>Renderer: the chat page's event handler\<close>

text \<open>
  \<^verbatim>\<open>type ChatEvent = { runId: string; sessionKey: string; seq: number;
    state: "delta" | "final" | "aborted" | "error"; message?: unknown; errorMessage?: string; };\<close>
\<close>

datatype run_state = Delta | Final | Aborted | ErrorState

record ChatEvent =
  runId :: string
  sessionKey :: string
  seq :: nat
  state :: run_state
  message :: "json option"
  errorMessage :: "string option"





section \<open>Main process: helper binaries\<close>

text \<open>
  \<^verbatim>\<open>type ExecResult = { ok: boolean; code: number | null; stdout: string; stderr: string;
    resolvedPath: string | null; };\<close>
\<close>

record ExecResult =
  ok :: bool
  code :: "int option"
  stdout :: string
  stderr :: string
  resolvedPath :: "string option"

record CommandParams =
  bin :: string
  args :: "string list"
  cwd :: "string option"
  timeoutMs :: nat

text \<open>
  One call of \<open>runCommandWithTimeout\<close>, after \<open>spawn\<close> has returned the child. Its closure
  holds the variables \<open>stdout\<close>, \<open>stderr\<close> and \<open>settled\<close>; the model adds whether the two
  data listeners are attached, whether the timer is armed, the calls of \<open>resolve\<close> in order,
  and the signals sent to the child.
\<close>

record Invocation =
  stdout_var :: string
  stderr_var :: string
  settled :: bool
  listening :: bool
  timer :: bool
  resolve_calls :: "ExecResult list"
  kill_calls :: "string list"

definition spawned :: Invocation where
  "spawned = \<lparr>stdout_var = [], stderr_var = [], settled = False, listening = True, timer = True,
              resolve_calls = [], kill_calls = []\<rparr>"

text \<open>
  What the event loop delivers to the call: a chunk on the child's stdout or stderr, the
  child's \<open>close\<close> event with its exit code (\<open>None\<close>: \<open>null\<close>), its \<open>error\<close> event with
  \<open>String(err)\<close>, and the expiry of the timer.
\<close>

datatype child_event =
    StdoutData string
  | StderrData string
  | Close "int option"
  | Error string
  | Timeout

text \<open>
  \<^verbatim>\<open>const settle = (result: ExecResult) => {
    if (settled) { return; }
    settled = true;
    try { child.stdout?.off("data", onStdout); child.stderr?.off("data", onStderr); } catch { }
    resolve(result); };\<close>
\<close>

definition settle :: "ExecResult \<Rightarrow> Invocation \<Rightarrow> Invocation" where
  "settle result s =
     (if settled s then s
      else s\<lparr>settled := True, listening := False, resolve_calls := resolve_calls s @ [result]\<rparr>)"

text \<open>\<open>`${stderr}${stderr.trim() ? "\n" : ""}${text}`\<close>\<close>

definition stderr_with :: "string \<Rightarrow> string \<Rightarrow> string" where
  "stderr_with err text = err @ (if trim err \<noteq> [] then [CHR 0x0A] else []) @ text"

text \<open>
  \<^verbatim>\<open>const onStdout = (chunk) => { stdout += String(chunk); };
  const onStderr = (chunk) => { stderr += String(chunk); };
  const timer = setTimeout(() => {
    try { child.kill("SIGKILL"); } catch { }
    settle({ ok: false, code: null, stdout,
      stderr: `${stderr}${stderr.trim() ? "\n" : ""}timeout after ${params.timeoutMs}ms`,
      resolvedPath: params.bin });
  }, params.timeoutMs);
  child.on("close", (code) => {
    clearTimeout(timer);
    settle({ ok: code === 0, code: typeof code === "number" ? code : null, stdout, stderr,
      resolvedPath: params.bin }); });
  child.on("error", (err) => {
    clearTimeout(timer);
    settle({ ok: false, code: null, stdout,
      stderr: `${stderr}${stderr.trim() ? "\n" : ""}${String(err)}`, resolvedPath: params.bin }); });\<close>
  A timer fires at most once, and not after \<open>clearTimeout\<close>.
\<close>

fun on_event :: "CommandParams \<Rightarrow> Invocation \<Rightarrow> child_event \<Rightarrow> Invocation" where
  "on_event params s (StdoutData chunk) =
     (if listening s then s\<lparr>stdout_var := stdout_var s @ chunk\<rparr> else s)"
| "on_event params s (StderrData chunk) =
     (if listening s then s\<lparr>stderr_var := stderr_var s @ chunk\<rparr> else s)"
| "on_event params s Timeout =
     (if timer s
      then settle \<lparr>ok = False, code = None, stdout = stdout_var s,
                   stderr = stderr_with (stderr_var s)
                              (''timeout after '' @ show_nat (timeoutMs params) @ ''ms''),
                   resolvedPath = Some (bin params)\<rparr>
             (s\<lparr>timer := False, kill_calls := kill_calls s @ [''SIGKILL'']\<rparr>)
      else s)"
| "on_event params s (Close exit_code) =
     settle \<lparr>ok = (exit_code = Some 0), code = exit_code, stdout = stdout_var s,
              stderr = stderr_var s, resolvedPath = Some (bin params)\<rparr>
       (s\<lparr>timer := False\<rparr>)"
| "on_event params s (Error err) =
     settle \<lparr>ok = False, code = None, stdout = stdout_var s,
              stderr = stderr_with (stderr_var s) err, resolvedPath = Some (bin params)\<rparr>
       (s\<lparr>timer := False\<rparr>)"

definition run_events :: "CommandParams \<Rightarrow> child_event list \<Rightarrow> Invocation" where
  "run_events params evs = foldl (on_event params) spawned evs"

text \<open>
  A promise is pending, fulfilled with a value, or rejected with an error (its message).
\<close>

datatype 'a promise_state = Pending | Fulfilled 'a | Rejected string

text \<open>
  The promise of a call whose \<open>spawn\<close> has returned the child: pending until the first call
  of \<open>resolve\<close>, then fulfilled with that call's argument for good.
\<close>

definition promise :: "Invocation \<Rightarrow> ExecResult promise_state" where
  "promise s = (case resolve_calls s of [] \<Rightarrow> Pending | r # _ \<Rightarrow> Fulfilled r)"

text \<open>
  \<^verbatim>\<open>function runCommandWithTimeout(params: {...}): Promise<ExecResult> {
    return new Promise((resolve) => {
      const child = spawn(params.bin, params.args, { cwd: params.cwd, stdio: ["ignore", "pipe", "pipe"] });
      ... (the listeners and the timer, as above)
    });
  }\<close>
  \<open>spawn\<close> either returns the child or throws: Node.js reports the spawn errors \<open>EACCES\<close>,
  \<open>EAGAIN\<close>, \<open>EMFILE\<close>, \<open>ENFILE\<close> and \<open>ENOENT\<close> through the child's \<open>error\<close>
  event and throws every other one synchronously. The call of \<open>spawn\<close> stands in the
  executor of the promise with no \<open>try\<close> around it, and an exception thrown by an executor
  rejects its promise.
  \<^item> \<open>Throws err\<close>: \<open>spawn\<close> throws \<open>err\<close>;
  \<^item> \<open>Spawned evs\<close>: \<open>spawn\<close> returns a child, and \<open>evs\<close> are the events of the child up
    to the moment \<open>timeoutMs\<close> have elapsed; then the timer expires.

  \<open>runCommandWithTimeout params outcome\<close> is what a caller that awaits the call gets.
\<close>

datatype spawn_outcome = Throws string | Spawned "child_event list"

definition runCommandWithTimeout :: "CommandParams \<Rightarrow> spawn_outcome \<Rightarrow> ExecResult promise_state" where
  "runCommandWithTimeout params outcome =
     (case outcome of
        Throws err \<Rightarrow> Rejected err
      | Spawned evs \<Rightarrow> promise (run_events params (evs @ [Timeout])))"

text \<open>The events that call \<open>settle\<close>, and the result each passes to it.\<close>

fun settles :: "child_event \<Rightarrow> bool" where
  "settles (StdoutData _) = False"
| "settles (StderrData _) = False"
| "settles _ = True"

fun stdout_of :: "child_event list \<Rightarrow> string" where
  "stdout_of [] = []"
| "stdout_of (StdoutData chunk # evs) = chunk @ stdout_of evs"
| "stdout_of (_ # evs) = stdout_of evs"

fun stderr_of :: "child_event list \<Rightarrow> string" where
  "stderr_of [] = []"
| "stderr_of (StderrData chunk # evs) = chunk @ stderr_of evs"
| "stderr_of (_ # evs) = stderr_of evs"

fun result_of :: "CommandParams \<Rightarrow> string \<Rightarrow> string \<Rightarrow> child_event \<Rightarrow> ExecResult" where
  "result_of params out err (Close exit_code) =
     \<lparr>ok = (exit_code = Some 0), code = exit_code, stdout = out, stderr = err,
      resolvedPath = Some (bin params)\<rparr>"
| "result_of params out err (Error msg) =
     \<lparr>ok = False, code = None, stdout = out, stderr = stderr_with err msg,
      resolvedPath = Some (bin params)\<rparr>"
| "result_of params out err _ =
     \<lparr>ok = False, code = None, stdout = out,
      stderr = stderr_with err (''timeout after '' @ show_nat (timeoutMs params) @ ''ms''),
      resolvedPath = Some (bin params)\<rparr>"

text \<open>
  The result of \<open>spawnSync\<close> with \<open>encoding: "utf-8"\<close>: \<open>status\<close> is the exit code or
  \<open>null\<close>, the outputs are strings or \<open>null\<close> (when the child could not be spawned:
  \<open>spawnSync\<close> reports a spawn error in its result and does not throw it).
\<close>

record SpawnSyncReturns =
  status :: "int option"
  sync_stdout :: "string option"
  sync_stderr :: "string option"

text \<open>\<open>String(v || "")\<close> for a string or \<open>null\<close>\<close>

fun string_or_empty :: "string option \<Rightarrow> string" where
  "string_or_empty (Some s) = s"
| "string_or_empty None = []"

text \<open>
  \<^verbatim>\<open>ipcMain.handle("memo-check", async () => {
    const memoBin = params.memoBin;
    if (!fs.existsSync(memoBin)) {
      return { ok: false, code: null, stdout: "",
        stderr: `memo binary not found at: ${memoBin}\nRun: cd apps/electron-desktop && npm run prepare:memo:all`,
        resolvedPath: null } as const; }
    const res = spawnSync(memoBin, ["--help"], { encoding: "utf-8", cwd: params.openclawDir, ... });
    const stdout = String(res.stdout || "");
    const stderr = String(res.stderr || "");
    const ok = res.status === 0;
    return { ok, code: typeof res.status === "number" ? res.status : null, stdout, stderr,
      resolvedPath: memoBin } as const; });\<close>
  The file system (\<open>existsSync\<close>) and \<open>spawnSync\<close> are parameters.
\<close>

definition memo_check ::
  "(string \<Rightarrow> bool) \<Rightarrow> (string \<Rightarrow> string list \<Rightarrow> string \<Rightarrow> SpawnSyncReturns) \<Rightarrow> string \<Rightarrow> string \<Rightarrow> ExecResult" where
  "memo_check existsSync spawnSync memoBin openclawDir =
     (if \<not> existsSync memoBin
      then \<lparr>ok = False, code = None, stdout = [],
            stderr = ''memo binary not found at: '' @ memoBin @ [CHR 0x0A] @
                     ''Run: cd apps/electron-desktop && npm run prepare:memo:all'',
            resolvedPath = None\<rparr>
      else let res = spawnSync memoBin [''--help''] openclawDir
           in \<lparr>ok = (status res = Some 0), code = status res,
               stdout = string_or_empty (sync_stdout res), stderr = string_or_empty (sync_stderr res),
               resolvedPath = Some memoBin\<rparr>)"

text \<open>
  \<^verbatim>\<open>ipcMain.handle("remindctl-authorize", async () => {
    const remindctlBin = params.remindctlBin;
    if (!fs.existsSync(remindctlBin)) {
      return { ok: false, code: null, stdout: "",
        stderr: `remindctl binary not found at: ${remindctlBin}\n` +
          "Run: cd apps/electron-desktop && npm run prepare:remindctl:all",
        resolvedPath: null } satisfies ExecResult; }
    return await runCommandWithTimeout({ bin: remindctlBin, args: ["authorize"],
      cwd: params.openclawDir, timeoutMs: 120_000 }); });\<close>
  and \<open>"remindctl-today-json"\<close>, the same with \<open>args: ["today", "--json"]\<close> and
  \<open>timeoutMs: 20_000\<close>. The value is that of the handler's promise: a rejection of the
  awaited call is a rejection of the handler's.
\<close>

definition remindctl_missing :: "string \<Rightarrow> ExecResult" where
  "remindctl_missing remindctlBin =
     \<lparr>ok = False, code = None, stdout = [],
      stderr = ''remindctl binary not found at: '' @ remindctlBin @ [CHR 0x0A] @
               ''Run: cd apps/electron-desktop && npm run prepare:remindctl:all'',
      resolvedPath = None\<rparr>"

definition remindctl_authorize ::
  "(string \<Rightarrow> bool) \<Rightarrow> string \<Rightarrow> string \<Rightarrow> spawn_outcome \<Rightarrow> ExecResult promise_state" where
  "remindctl_authorize existsSync remindctlBin openclawDir outcome =
     (if \<not> existsSync remindctlBin then Fulfilled (remindctl_missing remindctlBin)
      else runCommandWithTimeout
             \<lparr>bin = remindctlBin, args = [''authorize''], cwd = Some openclawDir, timeoutMs = 120000\<rparr>
             outcome)"

definition remindctl_today_json ::
  "(string \<Rightarrow> bool) \<Rightarrow> string \<Rightarrow> string \<Rightarrow> spawn_outcome \<Rightarrow> ExecResult promise_state" where
  "remindctl_today_json existsSync remindctlBin openclawDir outcome =
     (if \<not> existsSync remindctlBin then Fulfilled (remindctl_missing remindctlBin)
      else runCommandWithTimeout
             \<lparr>bin = remindctlBin, args = [''today'', ''--json''], cwd = Some openclawDir, timeoutMs = 20000\<rparr>
             outcome)"

section \<open>Main process: the Gateway supervisor\<close>

text \<open>
  \<open>GatewayState\<close>, with the fields in the order of the object literals of the source:
  \<open>{kind: "starting", port, logsDir, token}\<close>, \<open>{kind: "ready", port, logsDir, url, token}\<close>,
  \<open>{kind: "failed", port, logsDir, details, token}\<close>.
\<close>

datatype GatewayState =
    Starting int string string
  | Ready int string string string
  | Failed int string string string

subsection \<open>The child process\<close>

text \<open>
  A \<open>ChildProcess\<close> of Node.js, as far as \<open>stopGatewayChild\<close> reads and drives it:
  whether the process is still running, the \<open>killed\<close> property, and the signals delivered to
  the process. \<open>subprocess.kill(signal)\<close> sends the signal when the process is running, and
  \<open>subprocess.killed\<close> is set once a signal has been sent successfully; it does not say that
  the process has terminated. A process cannot survive \<open>SIGKILL\<close>; whether it exits on
  \<open>SIGTERM\<close> is its own choice.
\<close>

datatype signal = SIGTERM | SIGKILL

record ChildProcess =
  running :: bool
  killed :: bool
  delivered :: "signal list"

definition kill :: "signal \<Rightarrow> ChildProcess \<Rightarrow> ChildProcess" where
  "kill sig child =
     (if running child
      then \<lparr>running = (sig \<noteq> SIGKILL), killed = True, delivered = delivered child @ [sig]\<rparr>
      else child)"

text \<open>
  \<open>await new Promise((r) => setTimeout(r, 1500))\<close>: the grace period passes; \<open>exits\<close> says
  whether the process has exited by its end.
\<close>

definition grace_period :: "bool \<Rightarrow> ChildProcess \<Rightarrow> ChildProcess" where
  "grace_period exits child = child\<lparr>running := running child \<and> \<not> exits\<rparr>"

subsection \<open>The module-level state\<close>

text \<open>
  A \<open>BrowserWindow\<close> is referred to by its index among the windows created so far. Of a
  window the model keeps whether it is destroyed and the \<open>gateway-state\<close> messages its
  renderer has been sent.
  \<^verbatim>\<open>let mainWindow: BrowserWindow | null = null;
  let preloadPathForWindow: string | null = null;
  let rendererIndexForWindow: string | null = null;
  let gateway: ChildProcess | null = null;
  let gatewayState: GatewayState | null = null;\<close>
  \<open>broadcasts\<close> is the history of the states passed to \<open>broadcastGatewayState\<close>.
\<close>

record Window =
  destroyed :: bool
  inbox :: "GatewayState list"

record Main =
  mainWindow :: "nat option"
  preloadPathForWindow :: "string option"
  rendererIndexForWindow :: "string option"
  gateway :: "ChildProcess option"
  gatewayState :: "GatewayState option"
  windows :: "Window list"
  broadcasts :: "GatewayState list"

definition launched :: Main where
  "launched = \<lparr>mainWindow = None, preloadPathForWindow = None, rendererIndexForWindow = None,
               gateway = None, gatewayState = None, windows = [], broadcasts = []\<rparr>"

text \<open>
  \<^verbatim>\<open>async function stopGatewayChild(): Promise<void> {
    const child = gateway;
    gateway = null;
    if (!child) { return; }
    try { child.kill("SIGTERM"); } catch { }
    await new Promise((r) => setTimeout(r, 1500));
    if (!child.killed) {
      try { child.kill("SIGKILL"); } catch { }
    }
  }\<close>
  The second component is the child the call dealt with, as the call leaves it.
\<close>

definition stopGatewayChild :: "bool \<Rightarrow> Main \<Rightarrow> Main \<times> ChildProcess option" where
  "stopGatewayChild exits s =
     (case gateway s of
        None \<Rightarrow> (s\<lparr>gateway := None\<rparr>, None)
      | Some child \<Rightarrow>
          (let c1 = kill SIGTERM child;
               c2 = grace_period exits c1;
               c3 = (if \<not> killed c2 then kill SIGKILL c2 else c2)
           in (s\<lparr>gateway := None\<rparr>, Some c3)))"

text \<open>
  \<^verbatim>\<open>function broadcastGatewayState(win: BrowserWindow | null, state: GatewayState) {
    gatewayState = state;
    try { win?.webContents.send("gateway-state", state); } catch { }
  }\<close>
  Sending to a destroyed window throws, which is ignored.
\<close>

definition send :: "nat \<Rightarrow> GatewayState \<Rightarrow> Window list \<Rightarrow> Window list" where
  "send w st ws =
     (if w < length ws \<and> \<not> destroyed (ws ! w)
      then ws[w := (ws ! w)\<lparr>inbox := inbox (ws ! w) @ [st]\<rparr>]
      else ws)"

definition broadcastGatewayState :: "nat option \<Rightarrow> GatewayState \<Rightarrow> Main \<Rightarrow> Main" where
  "broadcastGatewayState win st s =
     (let s1 = s\<lparr>gatewayState := Some st, broadcasts := broadcasts s @ [st]\<rparr>
      in case win of
           None \<Rightarrow> s1
         | Some w \<Rightarrow> s1\<lparr>windows := send w st (windows s1)\<rparr>)"

text \<open>
  \<^verbatim>\<open>async function ensureMainWindow(): Promise<BrowserWindow | null> {
    const win = mainWindow;
    if (win && !win.isDestroyed()) { return win; }
    if (!preloadPathForWindow || !rendererIndexForWindow) { return null; }
    const nextWin = await createMainWindow({ preloadPath: ..., rendererIndex: ... });
    mainWindow = nextWin;
    nextWin.on("closed", () => { if (mainWindow === nextWin) { mainWindow = null; } });
    if (gatewayState) { broadcastGatewayState(nextWin, gatewayState); }
    return nextWin;
  }\<close>
  \<open>createMainWindow\<close> makes a new window.
\<close>

definition usable :: "Main \<Rightarrow> nat \<Rightarrow> bool" where
  "usable s w = (w < length (windows s) \<and> \<not> destroyed (windows s ! w))"

definition falsy :: "string option \<Rightarrow> bool" where
  "falsy v = (v = None \<or> v = Some [])"

definition ensureMainWindow :: "Main \<Rightarrow> nat option \<times> Main" where
  "ensureMainWindow s =
     (if (case mainWindow s of Some w \<Rightarrow> usable s w | None \<Rightarrow> False) then (mainWindow s, s)
      else if falsy (preloadPathForWindow s) \<or> falsy (rendererIndexForWindow s) then (None, s)
      else let nextWin = length (windows s);
               s1 = s\<lparr>windows := windows s @ [\<lparr>destroyed = False, inbox = []\<rparr>],
                      mainWindow := Some nextWin\<rparr>
           in (Some nextWin,
               case gatewayState s1 of
                 Some st \<Rightarrow> broadcastGatewayState (Some nextWin) st s1
               | None \<Rightarrow> s1))"

text \<open>
  The window \<open>w\<close> is closed by the user: it is destroyed, and its \<open>closed\<close> listener runs.
\<close>

definition window_closed :: "nat \<Rightarrow> Main \<Rightarrow> Main" where
  "window_closed w s =
     s\<lparr>windows := (if w < length (windows s) then (windows s)[w := (windows s ! w)\<lparr>destroyed := True\<rparr>]
                    else windows s),
       mainWindow := (if mainWindow s = Some w then None else mainWindow s)\<rparr>"

text \<open>
  \<^verbatim>\<open>app.on("activate", () => { void showMainWindow(); });\<close>
  where \<open>showMainWindow\<close> calls \<open>ensureMainWindow\<close> and then restores, shows and focuses the
  window.
\<close>

definition activate :: "Main \<Rightarrow> Main" where
  "activate s = snd (ensureMainWindow s)"

subsection \<open>Startup\<close>

text \<open>
  The handler of \<open>app.whenReady()\<close>, in the two parts that the \<open>await\<close> of
  \<open>waitForPortOpen\<close> separates (other handlers of the event loop may run in between).
  \<^verbatim>\<open>gateway = spawnGateway({ port, ..., stderrTail });
  preloadPathForWindow = preloadPath;
  rendererIndexForWindow = rendererIndex;
  const win = await ensureMainWindow();
  broadcastGatewayState(win, { kind: "starting", port, logsDir, token });
  ensureTray();
  const ok = await waitForPortOpen("127.0.0.1", port, 30_000);\<close>
\<close>

definition startup_begin :: "int \<Rightarrow> string \<Rightarrow> string \<Rightarrow> string \<Rightarrow> string \<Rightarrow> Main \<Rightarrow> nat option \<times> Main" where
  "startup_begin port logsDir token preloadPath rendererIndex s =
     (let s1 = s\<lparr>gateway := Some \<lparr>running = True, killed = False, delivered = []\<rparr>,
                  preloadPathForWindow := Some preloadPath,
                  rendererIndexForWindow := Some rendererIndex\<rparr>
      in case ensureMainWindow s1 of
           (win, s2) \<Rightarrow> (win, broadcastGatewayState win (Starting port logsDir token) s2))"

text \<open>\<open>lines.join("\n")\<close>\<close>

fun join_lines :: "string list \<Rightarrow> string" where
  "join_lines [] = []"
| "join_lines [l] = l"
| "join_lines (l # m # ls) = l @ [CHR 0x0A] @ join_lines (m # ls)"

text \<open>
  \<^verbatim>\<open>if (!ok) {
    const details = [
      `Gateway did not open the port within 30s.`, "",
      `openclawDir: ${openclawDir}`, `nodeBin: ${nodeBin}`, `stderr (tail):`,
      stderrTail.read().trim() || "<empty>", "", `See logs in: ${logsDir}`,
    ].join("\n");
    broadcastGatewayState(win, { kind: "failed", port, logsDir, details, token });
    return;
  }
  broadcastGatewayState(win, { kind: "ready", port, logsDir, url, token });\<close>
  with \<open>url = `http://127.0.0.1:${port}/`\<close>. \<open>opened\<close> is what \<open>waitForPortOpen\<close> returned,
  \<open>tail\<close> what \<open>stderrTail.read()\<close> returns.
\<close>

definition shown_tail :: "string \<Rightarrow> string" where
  "shown_tail tail = (if trim tail \<noteq> [] then trim tail else ''<empty>'')"

definition failure_details :: "string \<Rightarrow> string \<Rightarrow> string \<Rightarrow> string \<Rightarrow> string" where
  "failure_details openclawDir nodeBin logsDir tail =
     join_lines
       [''Gateway did not open the port within 30s.'', [],
        ''openclawDir: '' @ openclawDir, ''nodeBin: '' @ nodeBin, ''stderr (tail):'',
        shown_tail tail, [], ''See logs in: '' @ logsDir]"

definition gateway_url :: "int \<Rightarrow> string" where
  "gateway_url port = ''http://127.0.0.1:'' @ show_int port @ ''/''"

definition startup_end ::
  "int \<Rightarrow> string \<Rightarrow> string \<Rightarrow> string \<Rightarrow> string \<Rightarrow> nat option \<Rightarrow> bool \<Rightarrow> string \<Rightarrow> Main \<Rightarrow> Main" where
  "startup_end port logsDir token openclawDir nodeBin win opened tail s =
     (if \<not> opened
      then broadcastGatewayState win
             (Failed port logsDir (failure_details openclawDir nodeBin logsDir tail) token) s
      else broadcastGatewayState win (Ready port logsDir (gateway_url port) token) s)"

text \<open>
  The handlers that may run while \<open>waitForPortOpen\<close> is awaited and touch the state above:
  the \<open>closed\<close> listener of a window that the user closes, and \<open>activate\<close>.
\<close>

datatype main_event = WindowClosed nat | Activate

fun handle :: "Main \<Rightarrow> main_event \<Rightarrow> Main" where
  "handle s (WindowClosed w) = window_closed w s"
| "handle s Activate = activate s"

text \<open>
  A startup of the application: the first part of the \<open>whenReady\<close> handler, the handlers
  \<open>during\<close> the wait for the port in their order, and the second part of the handler.
\<close>

definition startup ::
  "int \<Rightarrow> string \<Rightarrow> string \<Rightarrow> string \<Rightarrow> string \<Rightarrow> string \<Rightarrow> string \<Rightarrow> main_event list \<Rightarrow> bool \<Rightarrow> string \<Rightarrow> Main" where
  "startup port logsDir token openclawDir nodeBin preloadPath rendererIndex during opened tail =
     (case startup_begin port logsDir token preloadPath rendererIndex launched of
        (win, s) \<Rightarrow>
          startup_end port logsDir token openclawDir nodeBin win opened tail (foldl handle s during))"

subsection \<open>The flows in one shape\<close>

text \<open>
  Each of the six flows may return before it loads the configuration (\<open>skips\<close>), then loads
  the snapshot, and then does one of three things with it (\<open>decide\<close>): nothing, seed a full
  document with \<open>config.set\<close>, or submit a patch with \<open>config.patch\<close> (the flag says
  whether the \<open>channels.status\<close> probe follows). \<open>perform\<close> carries the decision out.
\<close>

datatype config_write = NoWrite | Seed json | Patch json string bool

fun skips :: "flow \<Rightarrow> (string + unit) option" where
  "skips (SaveApiKey provider apiKey stored) =
     (if trim apiKey = [] then Some (Inr ())
      else case stored of Inl e \<Rightarrow> Some (Inl e) | Inr _ \<Rightarrow> None)"
| "skips (SaveTelegramToken telegramToken) = (if trim telegramToken = [] then Some (Inr ()) else None)"
| "skips (SaveTelegramAllowFrom telegramUserId) = (if trim telegramUserId = [] then Some (Inr ()) else None)"
| "skips _ = None"

fun decide :: "flow \<Rightarrow> ConfigSnapshot \<Rightarrow> config_write" where
  "decide (EnsureExtendedConfig state_port state_token) snap =
     (if exists snap = Some False
      then Seed (JObj (spread (getObject (config snap)) (ensure_patch state_port state_token snap)))
      else if ensure_patch state_port state_token snap = [] then NoWrite
      else Patch (JObj (ensure_patch state_port state_token snap))
             ''Welcome: ensure onboarding defaults (workspace/gateway)'' False)"
| "decide (SaveApiKey provider apiKey stored) snap =
     Patch (JObj [(''auth'', JObj
              [(''profiles'', JObj [(provider @ '':default'',
                  JObj [(''provider'', JStr provider), (''mode'', JStr ''api_key'')])]),
               (''order'', JObj [(provider, JArr [JStr (provider @ '':default'')])])])])
       (''Welcome: enable '' @ provider @ '' api_key profile'') False"
| "decide (SaveDefaultModel modelId) snap =
     Patch (JObj [(''agents'', JObj [(''defaults'', JObj
              [(''model'', JObj [(''primary'', JStr modelId)]),
               (''models'', JObj [(modelId, JObj [])])])])])
       ''Welcome: set default model'' False"
| "decide (SaveTelegramToken telegramToken) snap =
     Patch (JObj [(''channels'', JObj [(''telegram'', JObj
              [(''enabled'', JBool True), (''botToken'', JStr (trim telegramToken))])])])
       ''Welcome: configure Telegram bot token'' False"
| "decide (SaveTelegramAllowFrom telegramUserId) snap =
     Patch (allowFrom_patch (unique (existing_allowFrom snap @ [normalize_id (trim telegramUserId)])))
       ''Welcome: configure Telegram allowFrom'' True"
| "decide EnsureGogExecDefaults snap =
     Patch (gog_patch snap) ''Welcome: ensure gog exec defaults'' False"

definition perform :: "'g gateway \<Rightarrow> ConfigSnapshot \<Rightarrow> config_write \<Rightarrow> 'g rpc \<Rightarrow> (string + unit) \<times> 'g rpc" where
  "perform gw snap w c =
     (case w of
        NoWrite \<Rightarrow> (Inr (), c)
      | Seed doc \<Rightarrow>
          (case request gw (ConfigSet doc) c of
             (Inl e, c') \<Rightarrow> (Inl e, c')
           | (Inr _, c') \<Rightarrow> (Inr (), c'))
      | Patch doc note probe \<Rightarrow>
          (case patch_with_base gw snap doc note c of
             (Inl e, c') \<Rightarrow> (Inl e, c')
           | (Inr _, c') \<Rightarrow>
               (if probe then (case request gw (ChannelsStatus 12000) c' of (_, c3) \<Rightarrow> (Inr (), c3))
                else (Inr (), c'))))"

text \<open>The requests a run has added to the log.\<close>

definition new_requests :: "'g rpc \<Rightarrow> 'g rpc \<Rightarrow> rpc_request list" where
  "new_requests c c' = drop (length (issued c)) (issued c')"

subsection \<open>The settling event of a helper invocation\<close>

text \<open>
  Of the events delivered to a call of \<open>runCommandWithTimeout\<close>: those before the first one
  that calls \<open>settle\<close>, and that one (the expiry of the timer when the child's events hold
  none).
\<close>

definition before_settling :: "child_event list \<Rightarrow> child_event list" where
  "before_settling evs = takeWhile (\<lambda>e. \<not> settles e) evs"

definition first_settling :: "child_event list \<Rightarrow> child_event" where
  "first_settling evs = (case dropWhile (\<lambda>e. \<not> settles e) evs of [] \<Rightarrow> Timeout | e # _ \<Rightarrow> e)"

text \<open>A call that has settled: the timer is cleared or spent, the data listeners are removed.\<close>

definition finished :: "Invocation \<Rightarrow> bool" where
  "finished s = (settled s \<and> \<not> timer s \<and> \<not> listening s)"

subsection \<open>The state during the wait for the port\<close>

text \<open>
  While the state is \<open>st\<close>, the history of broadcasts consists of \<open>st\<close> only; the handlers
  that run during the wait keep it so (a new window is sent the state once more).
\<close>

definition steady :: "GatewayState \<Rightarrow> Main \<Rightarrow> bool" where
  "steady st s = (gatewayState s = Some st \<and> (\<exists>n. broadcasts s = replicate (Suc n) st))"

subsection \<open>A Gateway for examples\<close>

text \<open>
  A Gateway without state that answers \<open>config.get\<close> with the snapshot \<open>snap\<close> and accepts
  every other request.
\<close>

definition serving :: "ConfigSnapshot \<Rightarrow> unit gateway" where
  "serving snap g req =
     (case req of
        ConfigGet \<Rightarrow> (Inr (Snapshot snap), g)
      | _ \<Rightarrow> (Inr (Result JNull), g))"

section \<open>Properties of the supervisor\<close>

text \<open>
  What \<open>stopGatewayChild\<close> does to a child that is running when it is called: \<open>SIGTERM\<close>
  is delivered, which sets \<open>killed\<close>; after the grace period the test \<open>!child.killed\<close> is
  false, so no second signal is sent, whether the process has exited or not.
\<close>

lemma stopGatewayChild_running:
  "gateway s = Some child \<Longrightarrow> running child \<Longrightarrow>
   snd (stopGatewayChild exits s) =
     Some \<lparr>running = \<not> exits, killed = True, delivered = delivered child @ [SIGTERM]\<rparr>"
  by (simp add: stopGatewayChild_def kill_def grace_period_def)

text \<open>
  C3. The claim: after the graceful terminate signal and the 1.5 second grace period, the child
  is force-killed if and only if it is still alive. On the code, a running child that does not
  exit on \<open>SIGTERM\<close> within the grace period is left running: the only signal delivered to it
  is \<open>SIGTERM\<close>.
\<close>

theorem stopGatewayChild_survivor_not_killed:
  "stopGatewayChild False
     (launched\<lparr>gateway := Some \<lparr>running = True, killed = False, delivered = []\<rparr>\<rparr>)
   = (launched, Some \<lparr>running = True, killed = True, delivered = [SIGTERM]\<rparr>)"
  by (simp add: stopGatewayChild_def kill_def grace_period_def launched_def)

subsection \<open>The states broadcast during a startup\<close>

lemma broadcast_state [simp]:
  "gatewayState (broadcastGatewayState win st s) = Some st"
  "broadcasts (broadcastGatewayState win st s) = broadcasts s @ [st]"
  by (simp_all add: broadcastGatewayState_def Let_def split: option.splits)

lemma steady_broadcast: "steady st s \<Longrightarrow> steady st (broadcastGatewayState win st s)"
proof -
  assume "steady st s"
  then obtain n where n: "broadcasts s = replicate (Suc n) st" by (auto simp: steady_def)
  have "replicate (Suc n) st @ [st] = replicate (Suc (Suc n)) st"
    by (simp add: replicate_append_same)
  with n show ?thesis unfolding steady_def by (metis broadcast_state)
qed

lemma steady_ensureMainWindow: "steady st s \<Longrightarrow> steady st (snd (ensureMainWindow s))"
proof -
  assume st: "steady st s"
  let ?s1 = "s\<lparr>windows := windows s @ [\<lparr>destroyed = False, inbox = []\<rparr>],
               mainWindow := Some (length (windows s))\<rparr>"
  from st have s1: "steady st ?s1" by (simp add: steady_def)
  from st have g: "gatewayState s = Some st" by (simp add: steady_def)
  from steady_broadcast [OF s1] st g show ?thesis
    by (simp add: ensureMainWindow_def Let_def)
qed

lemma steady_handle: "steady st s \<Longrightarrow> steady st (handle s e)"
proof (cases e)
  case (WindowClosed w)
  assume "steady st s"
  then show ?thesis by (simp add: WindowClosed window_closed_def steady_def)
next
  case Activate
  assume "steady st s"
  then show ?thesis by (simp add: Activate activate_def steady_ensureMainWindow)
qed

lemma steady_foldl: "steady st s \<Longrightarrow> steady st (foldl handle s es)"
  by (induction es arbitrary: s) (simp_all add: steady_handle)

lemma steady_begin:
  "steady (Starting port logsDir token)
     (snd (startup_begin port logsDir token preloadPath rendererIndex launched))"
proof -
  have "broadcasts (snd (startup_begin port logsDir token preloadPath rendererIndex launched)) =
          replicate (Suc 0) (Starting port logsDir token)"
    by (simp add: startup_begin_def ensureMainWindow_def launched_def Let_def split: prod.splits)
  moreover have "gatewayState (snd (startup_begin port logsDir token preloadPath rendererIndex launched)) =
          Some (Starting port logsDir token)"
    by (simp add: startup_begin_def split: prod.splits)
  ultimately show ?thesis unfolding steady_def by blast
qed

lemma remdups_adj_steady: "x \<noteq> y \<Longrightarrow> remdups_adj (replicate (Suc n) x @ [y]) = [x, y]"
  by (induction n) simp_all

lemma startup_transitions:
  "remdups_adj (broadcasts (startup port logsDir token openclawDir nodeBin preloadPath rendererIndex
                              during opened tail)) =
     [Starting port logsDir token,
      if opened then Ready port logsDir (gateway_url port) token
      else Failed port logsDir (failure_details openclawDir nodeBin logsDir tail) token]"
proof -
  obtain win s where b: "startup_begin port logsDir token preloadPath rendererIndex launched = (win, s)"
    by (cases "startup_begin port logsDir token preloadPath rendererIndex launched")
  from steady_begin [of port logsDir token preloadPath rendererIndex] b
  have "steady (Starting port logsDir token) s" by simp
  then have "steady (Starting port logsDir token) (foldl handle s during)" by (rule steady_foldl)
  then obtain n where n: "broadcasts (foldl handle s during) = replicate (Suc n) (Starting port logsDir token)"
    by (auto simp: steady_def)
  show ?thesis
    by (simp only: startup_def b prod.case startup_end_def)
       (simp add: n remdups_adj_steady del: replicate.simps)
qed

lemma startup_final_state:
  "gatewayState (startup port logsDir token openclawDir nodeBin preloadPath rendererIndex
                   during opened tail) =
     Some (if opened then Ready port logsDir (gateway_url port) token
           else Failed port logsDir (failure_details openclawDir nodeBin logsDir tail) token)"
  by (simp add: startup_def startup_end_def split: prod.splits)

text \<open>
  C2. For every startup, whatever handlers run while the port is awaited: the states that are
  broadcast, repetitions of the current state to a new window apart, are \<open>Starting\<close> and then
  \<open>Ready\<close> when \<open>waitForPortOpen\<close> returned true, \<open>Starting\<close> and then \<open>Failed\<close> when it
  returned false, and the supervisor's state ends as the latter. In a startup during which no
  other handler runs there are exactly these two broadcasts, and the window created at startup
  is sent exactly these. The details of \<open>Failed\<close> hold, between the line \<open>stderr (tail):\<close>
  and the pointer to the logs, the trimmed stderr tail of the child (\<open><empty>\<close> when that is
  blank).
\<close>

theorem startup_state_sequence:
  "remdups_adj (broadcasts (startup port logsDir token openclawDir nodeBin preloadPath rendererIndex
                              during opened tail)) =
     [Starting port logsDir token,
      if opened then Ready port logsDir (gateway_url port) token
      else Failed port logsDir (failure_details openclawDir nodeBin logsDir tail) token]
   \<and> gatewayState (startup port logsDir token openclawDir nodeBin preloadPath rendererIndex
                      during opened tail) =
       Some (if opened then Ready port logsDir (gateway_url port) token
             else Failed port logsDir (failure_details openclawDir nodeBin logsDir tail) token)
   \<and> broadcasts (startup port logsDir token openclawDir nodeBin preloadPath rendererIndex [] opened tail) =
       [Starting port logsDir token,
        if opened then Ready port logsDir (gateway_url port) token
        else Failed port logsDir (failure_details openclawDir nodeBin logsDir tail) token]
   \<and> map inbox (windows (startup port logsDir token openclawDir nodeBin preloadPath rendererIndex
                            [] opened tail)) =
     (if preloadPath = [] \<or> rendererIndex = [] then []
      else [[Starting port logsDir token,
             if opened then Ready port logsDir (gateway_url port) token
             else Failed port logsDir (failure_details openclawDir nodeBin logsDir tail) token]])
   \<and> failure_details openclawDir nodeBin logsDir tail =
       ''Gateway did not open the port within 30s.'' @ [CHR 0x0A, CHR 0x0A] @
       ''openclawDir: '' @ openclawDir @ [CHR 0x0A] @ ''nodeBin: '' @ nodeBin @ [CHR 0x0A] @
       ''stderr (tail):'' @ [CHR 0x0A] @
       (if trim tail \<noteq> [] then trim tail else ''<empty>'') @
       [CHR 0x0A, CHR 0x0A] @ ''See logs in: '' @ logsDir"
proof -
  have quiet: "broadcasts (startup port logsDir token openclawDir nodeBin preloadPath rendererIndex [] opened tail) =
       [Starting port logsDir token,
        if opened then Ready port logsDir (gateway_url port) token
        else Failed port logsDir (failure_details openclawDir nodeBin logsDir tail) token]"
    by (simp add: startup_def startup_begin_def startup_end_def ensureMainWindow_def launched_def
        Let_def split: prod.splits)
  have sent: "map inbox (windows (startup port logsDir token openclawDir nodeBin preloadPath rendererIndex
                            [] opened tail)) =
     (if preloadPath = [] \<or> rendererIndex = [] then []
      else [[Starting port logsDir token,
             if opened then Ready port logsDir (gateway_url port) token
             else Failed port logsDir (failure_details openclawDir nodeBin logsDir tail) token]])"
    by (simp add: startup_def startup_begin_def startup_end_def ensureMainWindow_def
        broadcastGatewayState_def launched_def falsy_def send_def Let_def)
  have details: "failure_details openclawDir nodeBin logsDir tail =
       ''Gateway did not open the port within 30s.'' @ [CHR 0x0A, CHR 0x0A] @
       ''openclawDir: '' @ openclawDir @ [CHR 0x0A] @ ''nodeBin: '' @ nodeBin @ [CHR 0x0A] @
       ''stderr (tail):'' @ [CHR 0x0A] @
       (if trim tail \<noteq> [] then trim tail else ''<empty>'') @
       [CHR 0x0A, CHR 0x0A] @ ''See logs in: '' @ logsDir"
    by (simp add: failure_details_def shown_tail_def)
  from startup_transitions [of port logsDir token openclawDir nodeBin preloadPath rendererIndex during opened tail]
    startup_final_state [of port logsDir token openclawDir nodeBin preloadPath rendererIndex during opened tail]
    quiet sent details
  show ?thesis by (intro conjI)
qed

text \<open>
  A window created while a state is known is sent that state before \<open>ensureMainWindow\<close>
  returns.
\<close>

lemma ensureMainWindow_replays:
  assumes "mainWindow s = None" "\<not> falsy (preloadPathForWindow s)" "\<not> falsy (rendererIndexForWindow s)"
    and "gatewayState s = Some st"
  shows "fst (ensureMainWindow s) = Some (length (windows s)) \<and>
         inbox (windows (snd (ensureMainWindow s)) ! length (windows s)) = [st]"
  using assms by (simp add: ensureMainWindow_def broadcastGatewayState_def send_def Let_def)

text \<open>
  C9. The claim: every state transition is pushed to the current window. On the code, the two
  broadcasts of the startup go to the window obtained before \<open>waitForPortOpen\<close> is awaited.
  When that window is closed and the application is activated again during the wait, the new
  window is the current one and is sent the last known state (\<open>Starting\<close>) on creation, but
  the transition to \<open>Ready\<close> is sent to the destroyed window only: the current window's
  messages end with \<open>Starting\<close> while \<open>gatewayState\<close> is \<open>Ready\<close>.
\<close>

theorem reopened_window_misses_ready:
  "mainWindow (startup 18789 ''/logs'' ''tok'' ''/oc'' ''node'' ''preload.js'' ''index.html''
                 [WindowClosed 0, Activate] True []) = Some 1
   \<and> gatewayState (startup 18789 ''/logs'' ''tok'' ''/oc'' ''node'' ''preload.js'' ''index.html''
                      [WindowClosed 0, Activate] True [])
       = Some (Ready 18789 ''/logs'' (gateway_url 18789) ''tok'')
   \<and> map inbox (windows (startup 18789 ''/logs'' ''tok'' ''/oc'' ''node'' ''preload.js'' ''index.html''
                            [WindowClosed 0, Activate] True []))
       = [[Starting 18789 ''/logs'' ''tok''], [Starting 18789 ''/logs'' ''tok'']]"
  by (simp add: startup_def startup_begin_def startup_end_def ensureMainWindow_def
      broadcastGatewayState_def launched_def falsy_def send_def activate_def window_closed_def usable_def
      Let_def)

section \<open>Properties of the helper invocations\<close>

declare show_nat.simps [simp del]

lemma on_event_data:
  "\<not> settles e \<Longrightarrow> listening s \<Longrightarrow>
   on_event params s e = s\<lparr>stdout_var := stdout_var s @ stdout_of [e], stderr_var := stderr_var s @ stderr_of [e]\<rparr>"
  by (cases e) simp_all

lemma foldl_data:
  "list_all (\<lambda>e. \<not> settles e) evs \<Longrightarrow> listening s \<Longrightarrow>
   foldl (on_event params) s evs =
     s\<lparr>stdout_var := stdout_var s @ stdout_of evs, stderr_var := stderr_var s @ stderr_of evs\<rparr>"
proof (induction evs arbitrary: s)
  case Nil
  then show ?case by simp
next
  case (Cons e evs)
  from Cons.prems have e: "\<not> settles e" and rest: "list_all (\<lambda>e. \<not> settles e) evs" by simp_all
  have step: "on_event params s e =
      s\<lparr>stdout_var := stdout_var s @ stdout_of [e], stderr_var := stderr_var s @ stderr_of [e]\<rparr>"
    using on_event_data [OF e Cons.prems(2)] .
  have l: "listening (on_event params s e)" using step Cons.prems(2) by simp
  show ?case
    using Cons.IH [OF rest l] step
    by (cases e) (simp_all)
qed

lemma on_event_finished: "finished s \<Longrightarrow> on_event params s e = s"
  by (cases s; cases e) (simp_all add: finished_def settle_def)

lemma foldl_finished: "finished s \<Longrightarrow> foldl (on_event params) s evs = s"
  by (induction evs) (simp_all add: on_event_finished)

lemma on_event_settles:
  "settles e \<Longrightarrow> \<not> settled s \<Longrightarrow> timer s \<Longrightarrow>
   on_event params s e =
     s\<lparr>settled := True, listening := False, timer := False,
       resolve_calls := resolve_calls s @ [result_of params (stdout_var s) (stderr_var s) e],
       kill_calls := kill_calls s @ (if e = Timeout then [''SIGKILL''] else [])\<rparr>"
  by (cases s; cases e) (simp_all add: settle_def)

lemma run_events_pending:
  "list_all (\<lambda>e. \<not> settles e) evs \<Longrightarrow>
   run_events params evs = spawned\<lparr>stdout_var := stdout_of evs, stderr_var := stderr_of evs\<rparr>"
  unfolding run_events_def
  by (subst foldl_data) (simp_all add: spawned_def)

lemma run_events_settled:
  assumes pre: "list_all (\<lambda>e. \<not> settles e) pre" and e: "settles e"
  shows "run_events params (pre @ e # later) =
     \<lparr>stdout_var = stdout_of pre, stderr_var = stderr_of pre, settled = True, listening = False,
      timer = False, resolve_calls = [result_of params (stdout_of pre) (stderr_of pre) e],
      kill_calls = (if e = Timeout then [''SIGKILL''] else [])\<rparr>"
proof -
  let ?s = "spawned\<lparr>stdout_var := stdout_of pre, stderr_var := stderr_of pre\<rparr>"
  have a: "foldl (on_event params) spawned pre = ?s"
    using run_events_pending [OF pre] by (simp add: run_events_def)
  have b: "on_event params ?s e =
     \<lparr>stdout_var = stdout_of pre, stderr_var = stderr_of pre, settled = True, listening = False,
      timer = False, resolve_calls = [result_of params (stdout_of pre) (stderr_of pre) e],
      kill_calls = (if e = Timeout then [''SIGKILL''] else [])\<rparr>"
    by (subst on_event_settles [OF e]) (simp_all add: spawned_def)
  have c: "finished (on_event params ?s e)"
    by (simp add: b finished_def)
  have "run_events params (pre @ e # later) = foldl (on_event params) (on_event params ?s e) later"
    by (simp add: run_events_def a)
  also have "\<dots> = on_event params ?s e"
    by (rule foldl_finished [OF c])
  finally show ?thesis
    by (simp only: b)
qed

lemma promise_settled:
  assumes pre: "list_all (\<lambda>e. \<not> settles e) pre" and e: "settles e"
  shows "promise (run_events params (pre @ e # later)) =
     Fulfilled (result_of params (stdout_of pre) (stderr_of pre) e)"
  by (simp add: run_events_settled [OF pre e] promise_def)

lemma split_settling:
  "evs = before_settling evs @ dropWhile (\<lambda>e. \<not> settles e) evs"
  by (simp add: before_settling_def)

lemma before_settling_data: "list_all (\<lambda>e. \<not> settles e) (before_settling evs)"
  unfolding before_settling_def by (induction evs) simp_all

lemma runCommandWithTimeout_eq:
  "runCommandWithTimeout params (Spawned evs) =
     Fulfilled (result_of params (stdout_of (before_settling evs)) (stderr_of (before_settling evs))
             (first_settling evs))"
proof (cases "dropWhile (\<lambda>e. \<not> settles e) evs")
  case Nil
  then have all: "list_all (\<lambda>e. \<not> settles e) evs"
    by (simp add: list_all_iff)
  then have bs: "before_settling evs = evs"
    by (simp add: before_settling_def list_all_iff)
  have fs: "first_settling evs = Timeout"
    by (simp add: first_settling_def Nil)
  have "settles Timeout" by simp
  from promise_settled [OF all this, of params "[]"] show ?thesis
    by (simp only: runCommandWithTimeout_def spawn_outcome.case bs fs)
next
  case (Cons e later)
  then have e: "settles e"
    by (metis (mono_tags, lifting) dropWhile_eq_Cons_conv)
  have fs: "first_settling evs = e"
    by (simp add: first_settling_def Cons)
  have evs: "evs @ [Timeout] = before_settling evs @ e # (later @ [Timeout])"
    using split_settling [of evs] Cons by simp
  from promise_settled [OF before_settling_data e, of params evs "later @ [Timeout]"] show ?thesis
    unfolding runCommandWithTimeout_def spawn_outcome.case fs
    by (subst evs) simp
qed

lemma runCommandWithTimeout_timeout:
  assumes "list_all (\<lambda>e. \<not> settles e) evs"
  shows "before_settling evs = evs" and "first_settling evs = Timeout"
proof -
  from assms have d: "dropWhile (\<lambda>e. \<not> settles e) evs = []"
    by (simp add: dropWhile_eq_Nil_conv list_all_iff)
  from assms show "before_settling evs = evs"
    by (simp add: before_settling_def list_all_iff)
  show "first_settling evs = Timeout"
    unfolding first_settling_def d by simp
qed

lemma settles_first_settling: "settles (first_settling evs)"
proof (cases "dropWhile (\<lambda>e. \<not> settles e) evs")
  case Nil
  show ?thesis unfolding first_settling_def Nil by simp
next
  case (Cons e rest)
  then have "settles e"
    by (metis (mono_tags, lifting) dropWhile_eq_Cons_conv)
  then show ?thesis unfolding first_settling_def Cons by simp
qed

text \<open>
  C8. When neither the child's \<open>close\<close> nor its \<open>error\<close> event has been delivered by the
  time \<open>timeoutMs\<close> have elapsed (an \<open>error\<close> event of a child that could not be spawned
  comes with its \<open>close\<close>), the expiry of the timer sends \<open>SIGKILL\<close> to the child and
  fulfils the promise with \<open>ok = false\<close>, \<open>code = null\<close>, and a \<open>stderr\<close> that is the
  stderr captured so far, a line feed when that is not blank, and \<open>timeout after <timeoutMs>ms\<close>.
  The caller has its result as soon as the timer expires, and no later event changes it.
\<close>

theorem timeout_kills_and_reports:
  assumes quiet: "list_all (\<lambda>e. \<not> settles e) evs"
  shows "runCommandWithTimeout params (Spawned evs) =
           Fulfilled \<lparr>ok = False, code = None, stdout = stdout_of evs,
                 stderr = stderr_of evs @ (if trim (stderr_of evs) \<noteq> [] then [CHR 0x0A] else []) @
                          ''timeout after '' @ show_nat (timeoutMs params) @ ''ms'',
                 resolvedPath = Some (bin params)\<rparr>
         \<and> kill_calls (run_events params (evs @ [Timeout])) = [''SIGKILL'']
         \<and> promise (run_events params (evs @ Timeout # later)) = runCommandWithTimeout params (Spawned evs)"
proof -
  have t: "settles Timeout" by simp
  have a: "runCommandWithTimeout params (Spawned evs) =
             Fulfilled (result_of params (stdout_of evs) (stderr_of evs) Timeout)"
    by (simp only: runCommandWithTimeout_eq runCommandWithTimeout_timeout [OF quiet])
  have b: "kill_calls (run_events params (evs @ [Timeout])) = [''SIGKILL'']"
    by (simp add: run_events_settled [OF quiet t])
  have c: "promise (run_events params (evs @ Timeout # later)) =
             Fulfilled (result_of params (stdout_of evs) (stderr_of evs) Timeout)"
    by (rule promise_settled [OF quiet t])
  show ?thesis
    by (simp add: a b c stderr_with_def)
qed

theorem timeout_kills_and_reports_witness:
  "list_all (\<lambda>e. \<not> settles e) [StdoutData ''ask'', StderrData ''denied'']
   \<and> runCommandWithTimeout \<lparr>bin = ''/bin/remindctl'', args = [''authorize''], cwd = None, timeoutMs = 20000\<rparr>
         (Spawned [StdoutData ''ask'', StderrData ''denied'']) =
       Fulfilled \<lparr>ok = False, code = None, stdout = ''ask'',
             stderr = ''denied'' @ [CHR 0x0A] @ ''timeout after 20000ms'',
             resolvedPath = Some ''/bin/remindctl''\<rparr>"
proof -
  have q: "list_all (\<lambda>e. \<not> settles e) [StdoutData ''ask'', StderrData ''denied'']" by simp
  have n: "show_nat 20000 = ''20000''"
    by (simp add: show_nat.simps digit_char_def)
  have t: "trim ''denied'' \<noteq> []"
    by (simp add: trim_def is_space_def)
  from timeout_kills_and_reports [OF q, of "\<lparr>bin = ''/bin/remindctl'', args = [''authorize''], cwd = None, timeoutMs = 20000\<rparr>" "[]"]
  show ?thesis
    using q n t by simp
qed

text \<open>
  A call whose \<open>spawn\<close> has returned, for every sequence of events delivered to it:
  \<open>resolve\<close> is called at most once; the promise is pending as long as no timer expiry,
  \<open>close\<close> or \<open>error\<close> has been delivered, and from the first of them on it is fulfilled
  with the result that this event's handler builds from the output captured before it; events
  delivered later do not change it; once the timer has expired, \<open>resolve\<close> has been called
  exactly once; and the promise is not rejected.
\<close>

lemma spawned_settles_once:
  "length (resolve_calls (run_events params evs)) \<le> 1
   \<and> promise (run_events params evs) =
       (if list_all (\<lambda>e. \<not> settles e) evs then Pending
        else Fulfilled (result_of params (stdout_of (before_settling evs)) (stderr_of (before_settling evs))
                     (first_settling evs)))
   \<and> (promise (run_events params evs) = Fulfilled r \<longrightarrow>
        promise (run_events params (evs @ later)) = Fulfilled r)
   \<and> length (resolve_calls (run_events params (evs @ Timeout # later))) = 1
   \<and> promise (run_events params evs) \<noteq> Rejected err"
proof (cases "dropWhile (\<lambda>e. \<not> settles e) evs")
  case Nil
  then have all: "list_all (\<lambda>e. \<not> settles e) evs"
    by (simp add: list_all_iff)
  have t: "settles Timeout" by simp
  show ?thesis
    using all
    by (simp add: run_events_pending [OF all] run_events_settled [OF all t] promise_def spawned_def)
next
  case (Cons e rest)
  then have e: "settles e"
    by (metis (mono_tags, lifting) dropWhile_eq_Cons_conv)
  have fs: "first_settling evs = e"
    by (simp add: first_settling_def Cons)
  have evs: "evs = before_settling evs @ e # rest"
    using split_settling [of evs] Cons by simp
  have "dropWhile (\<lambda>e. \<not> settles e) evs \<noteq> []"
    using Cons by simp
  then have notall: "\<not> list_all (\<lambda>e. \<not> settles e) evs"
    by (simp add: dropWhile_eq_Nil_conv list_all_iff)
  have r2: "run_events params (evs @ more) =
     \<lparr>stdout_var = stdout_of (before_settling evs), stderr_var = stderr_of (before_settling evs),
      settled = True, listening = False, timer = False,
      resolve_calls = [result_of params (stdout_of (before_settling evs)) (stderr_of (before_settling evs)) e],
      kill_calls = (if e = Timeout then [''SIGKILL''] else [])\<rparr>" for more
  proof -
    have eq: "evs @ more = before_settling evs @ e # (rest @ more)"
      using evs by (metis append_Cons append_assoc)
    show ?thesis
      by (subst eq) (rule run_events_settled [OF before_settling_data e])
  qed
  have r1: "run_events params evs =
     \<lparr>stdout_var = stdout_of (before_settling evs), stderr_var = stderr_of (before_settling evs),
      settled = True, listening = False, timer = False,
      resolve_calls = [result_of params (stdout_of (before_settling evs)) (stderr_of (before_settling evs)) e],
      kill_calls = (if e = Timeout then [''SIGKILL''] else [])\<rparr>"
    using r2 [of "[]"] by simp
  show ?thesis
    by (simp add: r1 r2 notall fs promise_def)
qed


lemma spawned_settles_once_example:
  "promise (run_events \<lparr>bin = ''/bin/remindctl'', args = [''today'', ''--json''], cwd = None, timeoutMs = 20000\<rparr>
              ([StdoutData ''[]'', Close (Some 0)] @ [Error ''late'', Timeout]))
     = Fulfilled \<lparr>ok = True, code = Some 0, stdout = ''[]'', stderr = [], resolvedPath = Some ''/bin/remindctl''\<rparr>"
proof -
  have a: "promise (run_events \<lparr>bin = ''/bin/remindctl'', args = [''today'', ''--json''], cwd = None, timeoutMs = 20000\<rparr>
              [StdoutData ''[]'', Close (Some 0)])
     = Fulfilled \<lparr>ok = True, code = Some 0, stdout = ''[]'', stderr = [], resolvedPath = Some ''/bin/remindctl''\<rparr>"
    by (simp add: run_events_def spawned_def settle_def promise_def)
  from spawned_settles_once
    [of "\<lparr>bin = ''/bin/remindctl'', args = [''today'', ''--json''], cwd = None, timeoutMs = 20000\<rparr>"
        "[StdoutData ''[]'', Close (Some 0)]"
        "\<lparr>ok = True, code = Some 0, stdout = ''[]'', stderr = [], resolvedPath = Some ''/bin/remindctl''\<rparr>"
        "[Error ''late'', Timeout]"]
  show ?thesis using a by blast
qed

text \<open>
  C10. The claim: the promise returned by \<open>runCommandWithTimeout\<close> settles exactly once, with
  the result of the first of timeout, \<open>close\<close> and \<open>error\<close>, and never rejects. On the
  code, when \<open>spawn\<close> throws synchronously (for one, \<open>ENOTDIR\<close> for a working directory
  that is not a directory), the exception leaves the executor and the promise is rejected with
  it: no \<open>ExecResult\<close> is ever delivered.
\<close>

theorem spawn_throw_rejects_promise:
  "runCommandWithTimeout
     \<lparr>bin = ''/opt/remindctl'', args = [''today'', ''--json''], cwd = Some ''/etc/hosts'', timeoutMs = 20000\<rparr>
     (Throws ''Error: spawn ENOTDIR'') = Rejected ''Error: spawn ENOTDIR''
   \<and> runCommandWithTimeout params (Throws err) = Rejected err"
  by (simp add: runCommandWithTimeout_def)

text \<open>
  What the handlers return when \<open>spawn\<close> does not throw. When the binary is missing, \<open>ok\<close>
  is false and \<open>stderr\<close> is the message that names the missing path. Otherwise \<open>ok\<close> is true
  exactly when the process exited with code 0 (for the asynchronous helpers: when the event that
  settles the call is the child's \<open>close\<close> with code 0), and after a non-zero exit \<open>stderr\<close>
  is the captured stderr of the process.
\<close>

lemma helper_results:
  "(ok (memo_check existsSync spawnSync memoBin openclawDir) \<longleftrightarrow>
      existsSync memoBin \<and> status (spawnSync memoBin [''--help''] openclawDir) = Some 0)
   \<and> stderr (memo_check existsSync spawnSync memoBin openclawDir) =
       (if existsSync memoBin
        then (case sync_stderr (spawnSync memoBin [''--help''] openclawDir) of Some text \<Rightarrow> text | None \<Rightarrow> [])
        else ''memo binary not found at: '' @ memoBin @ [CHR 0x0A] @
             ''Run: cd apps/electron-desktop && npm run prepare:memo:all'')
   \<and> code (memo_check existsSync spawnSync memoBin openclawDir) =
       (if existsSync memoBin then status (spawnSync memoBin [''--help''] openclawDir) else None)
   \<and> (\<exists>res. remindctl_authorize existsSync remindctlBin openclawDir (Spawned evs) = Fulfilled res
         \<and> (ok res \<longleftrightarrow> existsSync remindctlBin \<and> first_settling evs = Close (Some 0))
         \<and> stdout res = (if existsSync remindctlBin then stdout_of (before_settling evs) else [])
         \<and> stderr res =
             (if \<not> existsSync remindctlBin
              then ''remindctl binary not found at: '' @ remindctlBin @ [CHR 0x0A] @
                   ''Run: cd apps/electron-desktop && npm run prepare:remindctl:all''
              else case first_settling evs of
                     Close exit_code \<Rightarrow> stderr_of (before_settling evs)
                   | Error msg \<Rightarrow>
                       stderr_of (before_settling evs) @
                       (if trim (stderr_of (before_settling evs)) \<noteq> [] then [CHR 0x0A] else []) @ msg
                   | _ \<Rightarrow>
                       stderr_of (before_settling evs) @
                       (if trim (stderr_of (before_settling evs)) \<noteq> [] then [CHR 0x0A] else []) @
                       ''timeout after 120000ms''))
   \<and> (\<exists>res. remindctl_today_json existsSync remindctlBin openclawDir (Spawned evs) = Fulfilled res
         \<and> (ok res \<longleftrightarrow> existsSync remindctlBin \<and> first_settling evs = Close (Some 0))
         \<and> stdout res = (if existsSync remindctlBin then stdout_of (before_settling evs) else [])
         \<and> stderr res =
             (if \<not> existsSync remindctlBin
              then ''remindctl binary not found at: '' @ remindctlBin @ [CHR 0x0A] @
                   ''Run: cd apps/electron-desktop && npm run prepare:remindctl:all''
              else case first_settling evs of
                     Close exit_code \<Rightarrow> stderr_of (before_settling evs)
                   | Error msg \<Rightarrow>
                       stderr_of (before_settling evs) @
                       (if trim (stderr_of (before_settling evs)) \<noteq> [] then [CHR 0x0A] else []) @ msg
                   | _ \<Rightarrow>
                       stderr_of (before_settling evs) @
                       (if trim (stderr_of (before_settling evs)) \<noteq> [] then [CHR 0x0A] else []) @
                       ''timeout after 20000ms''))"
proof -
  have n1: "show_nat 120000 = ''120000''"
    by (simp add: show_nat.simps digit_char_def)
  have n2: "show_nat 20000 = ''20000''"
    by (simp add: show_nat.simps digit_char_def)
  show ?thesis
    using settles_first_settling [of evs]
    by (cases "first_settling evs")
       (simp_all add: memo_check_def remindctl_authorize_def remindctl_today_json_def
          remindctl_missing_def runCommandWithTimeout_eq stderr_with_def n1 n2 Let_def
          split: option.splits)
qed

text \<open>
  C5. The claim: every helper invocation returns an \<open>ExecResult\<close> and never throws past the
  boundary. On the code, the handlers \<open>remindctl-authorize\<close> and \<open>remindctl-today-json\<close>
  await \<open>runCommandWithTimeout\<close>; when the binary exists and \<open>spawn\<close> throws synchronously
  (for one, \<open>ETXTBSY\<close> for a binary that is still open for writing), the handler's promise
  is rejected and the error crosses the IPC boundary instead of an \<open>ExecResult\<close> with
  \<open>ok = false\<close>.
\<close>

theorem helper_spawn_throw_crosses_boundary:
  "remindctl_today_json (\<lambda>p. True) ''/opt/remindctl'' ''/opt/openclaw'' (Throws ''Error: spawn ETXTBSY'')
     = Rejected ''Error: spawn ETXTBSY''
   \<and> remindctl_authorize (\<lambda>p. True) ''/opt/remindctl'' ''/opt/openclaw'' (Throws ''Error: spawn ETXTBSY'')
     = Rejected ''Error: spawn ETXTBSY''"
  by (simp add: remindctl_today_json_def remindctl_authorize_def runCommandWithTimeout_def)

section \<open>Properties of the configuration flows\<close>

lemma run_flow_shape:
  "run_flow f gw c =
     (case skips f of
        Some r \<Rightarrow> (r, c)
      | None \<Rightarrow>
          (case loadConfig gw c of
             (Inl e, c1) \<Rightarrow> (Inl e, c1)
           | (Inr snap, c1) \<Rightarrow> perform gw snap (decide f snap) c1))"
proof (cases f)
  case (EnsureExtendedConfig p t)
  then show ?thesis
    by (simp add: ensureExtendedConfig_def perform_def Let_def split: prod.splits sum.splits)
next
  case (SaveApiKey provider apiKey stored)
  then show ?thesis
    by (simp add: saveApiKey_def perform_def thrown_def Let_def split: prod.splits sum.splits)
next
  case (SaveDefaultModel m)
  then show ?thesis
    by (simp add: saveDefaultModel_def perform_def thrown_def Let_def split: prod.splits sum.splits)
next
  case (SaveTelegramToken t)
  then show ?thesis
    by (simp add: saveTelegramToken_def perform_def thrown_def Let_def split: prod.splits sum.splits)
next
  case (SaveTelegramAllowFrom u)
  then show ?thesis
    by (simp add: saveTelegramAllowFrom_def perform_def thrown_def Let_def split: prod.splits sum.splits)
next
  case EnsureGogExecDefaults
  then show ?thesis
    by (simp add: ensureGogExecDefaults_def perform_def loadConfig_def Let_def split: prod.splits sum.splits)
qed

lemma loadConfig_eq:
  "loadConfig gw c =
     (case gw (remote c) ConfigGet of
        (Inl e, g1) \<Rightarrow> (Inl e, \<lparr>remote = g1, issued = issued c @ [ConfigGet]\<rparr>)
      | (Inr resp, g1) \<Rightarrow> (Inr (as_snapshot resp), \<lparr>remote = g1, issued = issued c @ [ConfigGet]\<rparr>))"
  by (simp add: loadConfig_def request_def split: prod.splits sum.splits)

lemma baseHash_nonempty: "baseHash snap = Some h \<Longrightarrow> h \<noteq> []"
  by (auto simp: baseHash_def split: option.splits if_splits)

lemma perform_issued:
  "perform gw snap w c1 = (r, c') \<Longrightarrow>
   (\<exists>rest. issued c' = issued c1 @ rest \<and>
      (\<forall>h d n. ConfigPatch h d n \<in> set rest \<longrightarrow> baseHash snap = Some h))"
  by (cases w)
     (auto simp: perform_def patch_with_base_def request_def
           split: prod.splits sum.splits option.splits if_splits)

text \<open>
  Whatever the Gateway answers: a \<open>config.patch\<close> that a flow issues carries the non-empty
  base hash of the snapshot that the flow has just loaded.
\<close>

lemma patches_guarded:
  assumes run: "run_flow f gw c = (r, c')"
    and p: "ConfigPatch h d n \<in> set (new_requests c c')"
  shows "h \<noteq> [] \<and> (\<exists>resp g1. gw (remote c) ConfigGet = (Inr resp, g1) \<and> baseHash (as_snapshot resp) = Some h)"
proof (cases "skips f")
  case (Some r0)
  with run have "c' = c" by (simp add: run_flow_shape)
  with p show ?thesis by (simp add: new_requests_def)
next
  case None
  obtain a g1 where g: "gw (remote c) ConfigGet = (a, g1)" by (cases "gw (remote c) ConfigGet")
  let ?c1 = "\<lparr>remote = g1, issued = issued c @ [ConfigGet]\<rparr>"
  show ?thesis
  proof (cases a)
    case (Inl e)
    with run None g have "c' = ?c1" by (simp add: run_flow_shape loadConfig_eq)
    with p show ?thesis by (simp add: new_requests_def)
  next
    case (Inr resp)
    with run None g have "perform gw (as_snapshot resp) (decide f (as_snapshot resp)) ?c1 = (r, c')"
      by (simp add: run_flow_shape loadConfig_eq)
    from perform_issued [OF this] obtain rest where
      rest: "issued c' = issued ?c1 @ rest"
        "\<forall>h d n. ConfigPatch h d n \<in> set rest \<longrightarrow> baseHash (as_snapshot resp) = Some h"
      by blast
    from rest(1) have "new_requests c c' = ConfigGet # rest" by (simp add: new_requests_def)
    with p have "ConfigPatch h d n \<in> set rest" by simp
    with rest(2) have "baseHash (as_snapshot resp) = Some h" by blast
    with g Inr show ?thesis by (auto dest: baseHash_nonempty)
  qed
qed

text \<open>
  A flow that has a patch to submit and finds no base hash in the snapshot throws, having
  issued \<open>config.get\<close> only.
\<close>

lemma missing_base_fails:
  assumes "skips f = None" and "gw (remote c) ConfigGet = (Inr resp, g1)"
    and "decide f (as_snapshot resp) = Patch d n p" and "baseHash (as_snapshot resp) = None"
  shows "run_flow f gw c = (Inl base_hash_missing, \<lparr>remote = g1, issued = issued c @ [ConfigGet]\<rparr>)"
  using assms by (simp add: run_flow_shape loadConfig_eq perform_def patch_with_base_def)

lemma server_rejects_stale:
  "fingerprint (document st) \<noteq> h \<Longrightarrow>
   config_gateway fingerprint st (ConfigPatch h raw note) = (Inl base_hash_stale, st)"
  by (simp add: config_gateway_def)

lemma decide_not_seed: "exists snap \<noteq> Some False \<Longrightarrow> decide f snap \<noteq> Seed doc"
  by (cases f) simp_all

lemma racing_get:
  "racing_gateway fingerprint other st ConfigGet =
     (Inr (Snapshot \<lparr>path = Some (file_path st), exists = Some (present st), valid = Some True,
                     hash = Some (fingerprint (document st)), config = Some (document st)\<rparr>),
      st\<lparr>document := other\<rparr>)"
  by (simp add: racing_gateway_def config_gateway_def)

lemma racing_patch_stale:
  "h \<noteq> fingerprint (document st) \<Longrightarrow>
   racing_gateway fingerprint other st (ConfigPatch h raw note) = (Inl base_hash_stale, st)"
  by (simp add: racing_gateway_def config_gateway_def)

text \<open>
  A flow that loads an existing configuration and is overtaken by another writer leaves the
  other writer's document as it is, and its own patch, if it issues one, is rejected as stale.
\<close>

lemma concurrent_edit_survives:
  assumes pres: "present st"
    and differ: "fingerprint other \<noteq> trim (fingerprint (document st))"
    and run: "run_flow f (racing_gateway fingerprint other) \<lparr>remote = st, issued = []\<rparr> = (r, c')"
  shows "remote c' = (if skips f = None then st\<lparr>document := other\<rparr> else st) \<and>
         (list_ex is_patch (issued c') \<longrightarrow> r = Inl base_hash_stale)"
proof (cases "skips f")
  case (Some r0)
  with run show ?thesis by (auto simp: run_flow_shape)
next
  case None
  let ?snap = "\<lparr>path = Some (file_path st), exists = Some (present st), valid = Some True,
                hash = Some (fingerprint (document st)), config = Some (document st)\<rparr>"
  let ?c1 = "\<lparr>remote = st\<lparr>document := other\<rparr>, issued = [ConfigGet]\<rparr>"
  from run None have perf: "perform (racing_gateway fingerprint other) ?snap (decide f ?snap) ?c1 = (r, c')"
    by (simp add: run_flow_shape loadConfig_eq racing_get)
  have not_seed: "decide f ?snap \<noteq> Seed doc" for doc
    using pres by (intro decide_not_seed) simp
  show ?thesis
  proof (cases "decide f ?snap")
    case NoWrite
    with perf None show ?thesis by (auto simp: perform_def is_patch_def)
  next
    case (Seed doc)
    with not_seed [of doc] show ?thesis by blast
  next
    case (Patch d n p)
    show ?thesis
    proof (cases "trim (fingerprint (document st)) = []")
      case True
      with perf Patch None show ?thesis
        by (auto simp: perform_def patch_with_base_def baseHash_def is_patch_def)
    next
      case False
      have stale: "racing_gateway fingerprint other (st\<lparr>document := other\<rparr>)
                     (ConfigPatch (trim (fingerprint (document st))) d n) =
                   (Inl base_hash_stale, st\<lparr>document := other\<rparr>)"
        using differ by (intro racing_patch_stale) simp
      from perf Patch None False stale show ?thesis
        by (auto simp: perform_def patch_with_base_def baseHash_def request_def)
    qed
  qed
qed

text \<open>
  C1. (1) The Gateway rejects a \<open>config.patch\<close> whose \<open>baseHash\<close> is not the hash of the
  configuration at apply time, with the error "base hash missing/stale", and leaves the
  persisted configuration as it is. (2) Each of the six patching flows of the welcome page,
  against any Gateway: a \<open>config.patch\<close> it issues carries the non-empty base hash of the
  snapshot it has just loaded. (3) When that snapshot has no base hash and the flow has a patch
  to submit, it throws "Config base hash missing" after \<open>config.get\<close>, without issuing the
  patch. (4) End to end: when another writer changes an existing configuration between the
  flow's \<open>config.get\<close> and its \<open>config.patch\<close>, the flow's patch is rejected as stale and
  the other writer's document stays.
\<close>

theorem stale_base_hash_rejected:
  "(fingerprint (document st) \<noteq> h \<longrightarrow>
      config_gateway fingerprint st (ConfigPatch h raw note) = (Inl base_hash_stale, st))
   \<and> (run_flow f gw c = (r, c') \<and> ConfigPatch h' d n \<in> set (new_requests c c') \<longrightarrow>
        h' \<noteq> [] \<and> (\<exists>resp g1. gw (remote c) ConfigGet = (Inr resp, g1) \<and>
                       baseHash (as_snapshot resp) = Some h'))
   \<and> (skips f = None \<and> gw (remote c) ConfigGet = (Inr resp0, g0) \<and>
        decide f (as_snapshot resp0) = Patch d0 n0 p0 \<and> baseHash (as_snapshot resp0) = None \<longrightarrow>
        run_flow f gw c = (Inl base_hash_missing, \<lparr>remote = g0, issued = issued c @ [ConfigGet]\<rparr>))
   \<and> (present st \<and> fingerprint other \<noteq> trim (fingerprint (document st)) \<and>
        run_flow f (racing_gateway fingerprint other) \<lparr>remote = st, issued = []\<rparr> = (r1, c1) \<longrightarrow>
        remote c1 = (if skips f = None then st\<lparr>document := other\<rparr> else st) \<and>
        (list_ex is_patch (issued c1) \<longrightarrow> r1 = Inl base_hash_stale))"
  using server_rejects_stale [of fingerprint st h raw "note"]
    patches_guarded [of f gw c r c' h' d n]
    missing_base_fails [of f gw c resp0 g0 d0 n0 p0]
    concurrent_edit_survives [of st fingerprint other f r1 c1]
  by blast

theorem stale_base_hash_rejected_witness:
  "present \<lparr>file_path = ''/state/openclaw.json'', present = True, document = JObj []\<rparr>
   \<and> (\<lambda>doc. if doc = JObj [] then ''h0'' else ''h1'') (JObj [(''x'', JNull)]) \<noteq>
       trim ((\<lambda>doc. if doc = JObj [] then ''h0'' else ''h1'')
               (document \<lparr>file_path = ''/state/openclaw.json'', present = True, document = JObj []\<rparr>))
   \<and> run_flow (SaveDefaultModel ''m'')
         (racing_gateway (\<lambda>doc. if doc = JObj [] then ''h0'' else ''h1'') (JObj [(''x'', JNull)]))
         \<lparr>remote = \<lparr>file_path = ''/state/openclaw.json'', present = True, document = JObj []\<rparr>, issued = []\<rparr>
       = (Inl base_hash_stale,
          \<lparr>remote = \<lparr>file_path = ''/state/openclaw.json'', present = True, document = JObj [(''x'', JNull)]\<rparr>,
           issued = [ConfigGet,
                     ConfigPatch ''h0''
                       (JObj [(''agents'', JObj [(''defaults'', JObj
                          [(''model'', JObj [(''primary'', JStr ''m'')]),
                           (''models'', JObj [(''m'', JObj [])])])])])
                       ''Welcome: set default model'']\<rparr>)"
proof -
  have t: "trim ''h0'' = ''h0''"
    by (simp add: trim_def is_space_def)
  have run: "run_flow (SaveDefaultModel ''m'')
         (racing_gateway (\<lambda>doc. if doc = JObj [] then ''h0'' else ''h1'') (JObj [(''x'', JNull)]))
         \<lparr>remote = \<lparr>file_path = ''/state/openclaw.json'', present = True, document = JObj []\<rparr>, issued = []\<rparr>
       = (Inl base_hash_stale,
          \<lparr>remote = \<lparr>file_path = ''/state/openclaw.json'', present = True, document = JObj [(''x'', JNull)]\<rparr>,
           issued = [ConfigGet,
                     ConfigPatch ''h0''
                       (JObj [(''agents'', JObj [(''defaults'', JObj
                          [(''model'', JObj [(''primary'', JStr ''m'')]),
                           (''models'', JObj [(''m'', JObj [])])])])])
                       ''Welcome: set default model'']\<rparr>)"
    by (simp add: saveDefaultModel_def thrown_def loadConfig_def request_def racing_gateway_def
        config_gateway_def patch_with_base_def baseHash_def t)
  from stale_base_hash_rejected
    [where f = "SaveDefaultModel ''m''"
       and fingerprint = "\<lambda>doc. if doc = JObj [] then ''h0'' else ''h1''"
       and other = "JObj [(''x'', JNull)]"
       and st = "\<lparr>file_path = ''/state/openclaw.json'', present = True, document = JObj []\<rparr>"
       and ?r1.0 = "Inl base_hash_stale"
       and ?c1.0 = "\<lparr>remote = \<lparr>file_path = ''/state/openclaw.json'', present = True, document = JObj [(''x'', JNull)]\<rparr>,
           issued = [ConfigGet,
                     ConfigPatch ''h0''
                       (JObj [(''agents'', JObj [(''defaults'', JObj
                          [(''model'', JObj [(''primary'', JStr ''m'')]),
                           (''models'', JObj [(''m'', JObj [])])])])])
                       ''Welcome: set default model'']\<rparr>"]
  show ?thesis
    using run t by simp
qed

subsection \<open>Seeding\<close>

lemma get_prop_set_prop:
  "get_prop (set_prop ob k v) k' = (if k' = k then Some v else get_prop ob k')"
  by (induction ob) (auto simp: get_prop_def)

lemma seeded_gateway:
  "get_prop (spread (getObject (config snap)) (ensure_patch state_port state_token snap)) ''gateway'' =
     (if needsGateway state_port state_token (getObject (get_prop (getObject (config snap)) ''gateway''))
      then Some (gateway_section state_port state_token
                   (getObject (get_prop (getObject (config snap)) ''gateway'')))
      else get_prop (getObject (config snap)) ''gateway'')"
  by (simp add: ensure_patch_def Let_def spread_def get_prop_set_prop)

lemma gateway_section_fields:
  "get_prop (getObject (Some (gateway_section state_port state_token current))) ''mode'' = Some (JStr ''local'')"
  "get_prop (getObject (Some (gateway_section state_port state_token current))) ''bind'' = Some (JStr ''loopback'')"
  "get_prop (getObject (Some (gateway_section state_port state_token current))) ''port'' = Some (JNum state_port)"
  "get_prop (getObject (get_prop (getObject (Some (gateway_section state_port state_token current))) ''auth'')) ''mode''
     = Some (JStr ''token'')"
  "get_prop (getObject (get_prop (getObject (Some (gateway_section state_port state_token current))) ''auth'')) ''token''
     = Some (JStr state_token)"
  by (simp_all add: gateway_section_def spread_def get_prop_set_prop)

lemma settled_gateway_fields:
  assumes "\<not> needsGateway state_port state_token current"
  shows "trimmed_string (get_prop current ''mode'') = ''local''"
    and "trimmed_string (get_prop current ''bind'') = ''loopback''"
    and "get_prop current ''port'' = Some (JNum state_port)"
    and "trimmed_string (get_prop (getObject (get_prop current ''auth'')) ''mode'') = ''token''"
    and "trimmed_string (get_prop (getObject (get_prop current ''auth'')) ''token'') = state_token"
  using assms
  by (auto simp: needsGateway_def Let_def split: option.splits json.splits)

lemma needsGateway_without_section: "needsGateway state_port state_token []"
  by (simp add: needsGateway_def get_prop_def)

lemma seed_requests:
  assumes "gw (remote c) ConfigGet = (Inr (Snapshot snap), g1)" and "exists snap = Some False"
  shows "new_requests c (snd (ensureExtendedConfig state_port state_token gw c)) =
           [ConfigGet, ConfigSet (JObj (spread (getObject (config snap))
                                          (ensure_patch state_port state_token snap)))]"
  using assms
  by (simp add: ensureExtendedConfig_def loadConfig_def request_def new_requests_def Let_def
      split: prod.splits sum.splits)

text \<open>
  C6, as amended. For every snapshot with \<open>exists = false\<close>, whether or not it carries a hash,
  the flow issues \<open>config.get\<close> and then \<open>config.set\<close> with the full document
  \<open>{...cfg, ...patch}\<close>, and no \<open>config.patch\<close>. The \<open>gateway\<close> section of that document:
  when the snapshot's section needed rewriting (always, when the snapshot has none), it holds
  exactly \<open>mode = "local"\<close>, \<open>bind = "loopback"\<close>, the supervisor's port, and
  \<open>auth.mode = "token"\<close> with the supervisor's token; otherwise it is the snapshot's own
  section, whose values equal these after trimming.
\<close>

theorem seed_on_missing_config:
  "(gw (remote c) ConfigGet = (Inr (Snapshot snap), g1) \<and> exists snap = Some False \<longrightarrow>
      new_requests c (snd (ensureExtendedConfig state_port state_token gw c)) =
        [ConfigGet, ConfigSet (JObj (spread (getObject (config snap))
                                       (ensure_patch state_port state_token snap)))])
   \<and> (let current = getObject (get_prop (getObject (config snap)) ''gateway'');
           seeded = getObject (get_prop (spread (getObject (config snap))
                                           (ensure_patch state_port state_token snap)) ''gateway'')
       in (needsGateway state_port state_token current \<longrightarrow>
             get_prop seeded ''mode'' = Some (JStr ''local'') \<and>
             get_prop seeded ''bind'' = Some (JStr ''loopback'') \<and>
             get_prop seeded ''port'' = Some (JNum state_port) \<and>
             get_prop (getObject (get_prop seeded ''auth'')) ''mode'' = Some (JStr ''token'') \<and>
             get_prop (getObject (get_prop seeded ''auth'')) ''token'' = Some (JStr state_token))
        \<and> (\<not> needsGateway state_port state_token current \<longrightarrow>
             seeded = current \<and>
             trimmed_string (get_prop seeded ''mode'') = ''local'' \<and>
             trimmed_string (get_prop seeded ''bind'') = ''loopback'' \<and>
             get_prop seeded ''port'' = Some (JNum state_port) \<and>
             trimmed_string (get_prop (getObject (get_prop seeded ''auth'')) ''mode'') = ''token'' \<and>
             trimmed_string (get_prop (getObject (get_prop seeded ''auth'')) ''token'') = state_token)
        \<and> (get_prop (getObject (config snap)) ''gateway'' = None \<longrightarrow>
             needsGateway state_port state_token current))"
proof -
  let ?current = "getObject (get_prop (getObject (config snap)) ''gateway'')"
  have a: "gw (remote c) ConfigGet = (Inr (Snapshot snap), g1) \<and> exists snap = Some False \<longrightarrow>
      new_requests c (snd (ensureExtendedConfig state_port state_token gw c)) =
        [ConfigGet, ConfigSet (JObj (spread (getObject (config snap))
                                       (ensure_patch state_port state_token snap)))]"
    using seed_requests [of gw c snap g1 state_port state_token] by blast
  have b: "needsGateway state_port state_token ?current \<Longrightarrow>
      getObject (get_prop (spread (getObject (config snap))
                             (ensure_patch state_port state_token snap)) ''gateway'') =
      getObject (Some (gateway_section state_port state_token ?current))"
    by (simp add: seeded_gateway)
  have c: "\<not> needsGateway state_port state_token ?current \<Longrightarrow>
      getObject (get_prop (spread (getObject (config snap))
                             (ensure_patch state_port state_token snap)) ''gateway'') = ?current"
    by (simp add: seeded_gateway)
  have d: "get_prop (getObject (config snap)) ''gateway'' = None \<Longrightarrow>
      needsGateway state_port state_token ?current"
    by (simp add: needsGateway_without_section)
  show ?thesis
    unfolding Let_def
    using a b c d gateway_section_fields [of state_port state_token ?current]
      settled_gateway_fields [of state_port state_token ?current]
    by presburger
qed

theorem seed_on_missing_config_witness:
  "serving \<lparr>path = None, exists = Some False, valid = None, hash = None, config = None\<rparr> () ConfigGet =
     (Inr (Snapshot \<lparr>path = None, exists = Some False, valid = None, hash = None, config = None\<rparr>), ())
   \<and> new_requests \<lparr>remote = (), issued = []\<rparr>
        (snd (ensureExtendedConfig 18789 ''tok''
                (serving \<lparr>path = None, exists = Some False, valid = None, hash = None, config = None\<rparr>)
                \<lparr>remote = (), issued = []\<rparr>)) =
       [ConfigGet,
        ConfigSet (JObj
          [(''gateway'', JObj [(''mode'', JStr ''local''), (''bind'', JStr ''loopback''),
                               (''port'', JNum 18789),
                               (''auth'', JObj [(''mode'', JStr ''token''), (''token'', JStr ''tok'')])]),
           (''agents'', JObj [(''defaults'', JObj [(''workspace'', JStr ''~/openclaw-workspace'')])])])]"
proof -
  have p: "ensure_patch 18789 ''tok''
             \<lparr>path = None, exists = Some False, valid = None, hash = None, config = None\<rparr> =
           [(''gateway'', JObj [(''mode'', JStr ''local''), (''bind'', JStr ''loopback''),
                               (''port'', JNum 18789),
                               (''auth'', JObj [(''mode'', JStr ''token''), (''token'', JStr ''tok'')])]),
            (''agents'', JObj [(''defaults'', JObj [(''workspace'', JStr ''~/openclaw-workspace'')])])]"
    by (simp add: ensure_patch_def needsGateway_def gateway_section_def spread_def get_prop_def
        inferWorkspaceDirFromConfigPath_def)
  have g: "serving \<lparr>path = None, exists = Some False, valid = None, hash = None, config = None\<rparr> () ConfigGet =
     (Inr (Snapshot \<lparr>path = None, exists = Some False, valid = None, hash = None, config = None\<rparr>), ())"
    by (simp add: serving_def)
  from seed_on_missing_config
    [of "serving \<lparr>path = None, exists = Some False, valid = None, hash = None, config = None\<rparr>"
        "\<lparr>remote = (), issued = []\<rparr>"
        "\<lparr>path = None, exists = Some False, valid = None, hash = None, config = None\<rparr>"
        "()" 18789 "''tok''"]
  show ?thesis
    using g by (simp add: p spread_def)
qed

text \<open>
  The claim C6 as stated fails for a snapshot with \<open>exists = false\<close> whose configuration
  already holds the gateway settings up to white space: the document sent with \<open>config.set\<close>
  is that configuration, and its \<open>gateway.mode\<close> is \<open>" local"\<close>.
\<close>

theorem seed_keeps_padded_mode:
  "ensureExtendedConfig 18789 ''tok''
     (serving \<lparr>path = None, exists = Some False, valid = None, hash = None,
               config = Some (JObj
                 [(''gateway'', JObj [(''mode'', JStr '' local''), (''bind'', JStr ''loopback''),
                                      (''port'', JNum 18789),
                                      (''auth'', JObj [(''mode'', JStr ''token''), (''token'', JStr ''tok'')])]),
                  (''agents'', JObj [(''defaults'', JObj [(''workspace'', JStr ''/w'')])])])\<rparr>)
     \<lparr>remote = (), issued = []\<rparr>
   = (Inr (),
      \<lparr>remote = (),
       issued = [ConfigGet,
                 ConfigSet (JObj
                   [(''gateway'', JObj [(''mode'', JStr '' local''), (''bind'', JStr ''loopback''),
                                        (''port'', JNum 18789),
                                        (''auth'', JObj [(''mode'', JStr ''token''), (''token'', JStr ''tok'')])]),
                    (''agents'', JObj [(''defaults'', JObj [(''workspace'', JStr ''/w'')])])])]\<rparr>)"
proof -
  have t: "trim '' local'' = ''local''" "trim ''loopback'' = ''loopback''" "trim ''token'' = ''token''"
    "trim ''tok'' = ''tok''" "trim ''/w'' = ''/w''"
    by (simp_all add: trim_def is_space_def)
  show ?thesis
    by (simp add: ensureExtendedConfig_def loadConfig_def request_def serving_def ensure_patch_def
        needsGateway_def get_prop_def spread_def t)
qed

subsection \<open>The Telegram allow-list\<close>

lemma unique_snoc: "unique (xs @ [x]) = set_add (unique xs) x"
  by (simp add: unique_def)

lemma set_unique: "set (unique xs) = set xs"
  by (induction xs rule: rev_induct) (auto simp: unique_snoc set_add_def, simp add: unique_def)

lemma unique_append_one: "unique (xs @ [x]) = (if x \<in> set xs then unique xs else unique xs @ [x])"
  by (simp add: unique_snoc set_add_def set_unique)

lemma unique_first_occurrences: "unique xs = rev (remdups (rev xs))"
proof (induction xs rule: rev_induct)
  case Nil
  show ?case by (simp add: unique_def)
next
  case (snoc x xs)
  then show ?case by (simp add: unique_append_one)
qed

lemma unique_distinct: "distinct xs \<Longrightarrow> unique xs = xs"
  by (simp add: unique_first_occurrences distinct_remdups_id)

lemma digit_not_space: "is_digit c \<Longrightarrow> \<not> is_space c"
  by (auto simp: is_digit_def is_space_def)

lemma dropWhile_space_digits: "list_all is_digit ds \<Longrightarrow> dropWhile is_space ds = ds"
  by (cases ds) (simp_all add: digit_not_space)

lemma trim_digits: "list_all is_digit ds \<Longrightarrow> trim ds = ds"
proof -
  assume d: "list_all is_digit ds"
  then have "list_all is_digit (rev ds)" by (simp add: list_all_iff)
  then have "dropWhile is_space (rev ds) = rev ds" by (rule dropWhile_space_digits)
  with dropWhile_space_digits [OF d] show ?thesis by (simp add: trim_def)
qed

lemma strip_prefix_digits: "list_all is_digit ds \<Longrightarrow> ds \<noteq> [] \<Longrightarrow> strip_prefix ds = ds"
proof -
  assume d: "list_all is_digit ds" and ne: "ds \<noteq> []"
  then obtain c cs where ds: "ds = c # cs" and c: "is_digit c" by (cases ds) auto
  from c have "lower c \<noteq> CHR ''t''" by (auto simp: is_digit_def lower_def)
  then show ?thesis by (simp add: strip_prefix_def ds)
qed

text \<open>
  A numeric id, bare or behind the prefix \<open>tg:\<close> or \<open>telegram:\<close> in either case, is
  normalised to its digits.
\<close>

lemma normalize_id_digits:
  assumes d: "list_all is_digit ds" and ne: "ds \<noteq> []"
  shows "normalize_id ds = ds"
    and "normalize_id (''tg:'' @ ds) = ds"
    and "normalize_id (''TG:'' @ ds) = ds"
    and "normalize_id (''telegram:'' @ ds) = ds"
proof -
  show "normalize_id ds = ds"
    unfolding normalize_id_def Let_def strip_prefix_digits [OF d ne] trim_digits [OF d]
    using d ne by simp
  have l: "map lower ''tg:'' = ''tg:''" "map lower ''TG:'' = ''tg:''"
    "map lower ''telegram:'' = ''telegram:''"
    by (simp_all add: lower_def)
  have "take 9 (''tg:'' @ ds) = ''tg:'' @ take 6 ds" by simp
  then have a: "map lower (take 9 (''tg:'' @ ds)) \<noteq> ''telegram:''"
    by (simp only: map_append l) simp
  have b: "map lower (take 3 (''tg:'' @ ds)) = ''tg:''"
    using l by simp
  have s: "strip_prefix (''tg:'' @ ds) = ds"
    unfolding strip_prefix_def using a b by simp
  show "normalize_id (''tg:'' @ ds) = ds"
    unfolding normalize_id_def Let_def s trim_digits [OF d]
    using d ne by simp
  have "take 9 (''TG:'' @ ds) = ''TG:'' @ take 6 ds" by simp
  then have a': "map lower (take 9 (''TG:'' @ ds)) \<noteq> ''telegram:''"
    by (simp only: map_append l) simp
  have b': "map lower (take 3 (''TG:'' @ ds)) = ''tg:''"
    using l by simp
  have s': "strip_prefix (''TG:'' @ ds) = ds"
    unfolding strip_prefix_def using a' b' by simp
  show "normalize_id (''TG:'' @ ds) = ds"
    unfolding normalize_id_def Let_def s' trim_digits [OF d]
    using d ne by simp
  have c: "map lower (take 9 (''telegram:'' @ ds)) = ''telegram:''"
    using l by simp
  have s'': "strip_prefix (''telegram:'' @ ds) = ds"
    unfolding strip_prefix_def using c by simp
  show "normalize_id (''telegram:'' @ ds) = ds"
    unfolding normalize_id_def Let_def s'' trim_digits [OF d]
    using d ne by simp
qed

lemma allowFrom_blank:
  "trim telegramUserId = [] \<Longrightarrow> saveTelegramAllowFrom telegramUserId gw c = (Inr False, c)"
  by (simp add: saveTelegramAllowFrom_def)

lemma allowFrom_requests:
  assumes "trim telegramUserId \<noteq> []" and "gw (remote c) ConfigGet = (Inr (Snapshot snap), g1)"
    and "baseHash snap = Some h"
  shows "take 2 (new_requests c (snd (saveTelegramAllowFrom telegramUserId gw c))) =
           [ConfigGet,
            ConfigPatch h
              (allowFrom_patch (unique (existing_allowFrom snap @ [normalize_id (trim telegramUserId)])))
              ''Welcome: configure Telegram allowFrom'']"
  using assms
  by (simp add: saveTelegramAllowFrom_def loadConfig_def patch_with_base_def request_def
      new_requests_def Let_def split: prod.splits sum.splits)


lemma existing_allowFrom_spelled:
  "existing_allowFrom snap =
     (case get_prop (getObject (get_prop (getObject (get_prop (getObject (config snap)) ''channels'')) ''telegram''))
             ''allowFrom'' of
        Some (JArr vs) \<Rightarrow> filter (\<lambda>s. s \<noteq> []) (map (\<lambda>v. trim (js_String v)) vs)
      | _ \<Rightarrow> [])"
  by (simp add: existing_allowFrom_def Let_def split: option.splits json.splits)

lemma existing_allowFrom_shaped:
  assumes "config snap = Some (JObj cfg)" and "map_of cfg ''channels'' = Some (JObj channels)"
    and "map_of channels ''telegram'' = Some (JObj telegram)"
  shows "existing_allowFrom snap =
     (case map_of telegram ''allowFrom'' of
        Some (JArr vs) \<Rightarrow> filter (\<lambda>s. s \<noteq> []) (map (\<lambda>v. trim (js_String v)) vs)
      | _ \<Rightarrow> [])"
  using assms
  by (simp add: existing_allowFrom_def get_prop_def Let_def split: option.splits json.splits)

lemma trim_prefixed:
  assumes d: "list_all is_digit ds" and ne: "ds \<noteq> []" and p: "p \<noteq> []" "\<not> is_space (hd p)"
  shows "trim (p @ ds) = p @ ds"
proof -
  from p have a: "dropWhile is_space (p @ ds) = p @ ds" by (cases p) simp_all
  from d ne have "\<not> is_space (last ds)" by (simp add: list_all_iff digit_not_space)
  with ne have "\<not> is_space (hd (rev ds @ rev p))" by (simp add: hd_rev)
  moreover from ne have "rev ds @ rev p \<noteq> []" by simp
  ultimately have b: "dropWhile is_space (rev ds @ rev p) = rev ds @ rev p"
    by (cases "rev ds @ rev p") simp_all
  show ?thesis by (simp add: trim_def a b)
qed

lemma uid_digits:
  assumes d: "list_all is_digit ds" and ne: "ds \<noteq> []"
    and t: "telegramUserId \<in> {ds, ''tg:'' @ ds, ''TG:'' @ ds, ''telegram:'' @ ds}"
  shows "normalize_id (trim telegramUserId) = ds"
proof -
  have s: "\<not> is_space CHR ''t''" "\<not> is_space CHR ''T''" by (simp_all add: is_space_def)
  have "trim telegramUserId = telegramUserId"
    using t trim_digits [OF d] trim_prefixed [OF d ne, of "''tg:''"] trim_prefixed [OF d ne, of "''TG:''"]
      trim_prefixed [OF d ne, of "''telegram:''"] s
    by auto
  then show ?thesis using t normalize_id_digits [OF d ne] by auto
qed


lemma first_occurrences_snoc:
  "rev (remdups (rev (xs @ [x]))) =
     (if x \<in> set xs then rev (remdups (rev xs)) else rev (remdups (rev xs)) @ [x])"
  by simp

lemma first_occurrences_distinct: "distinct xs \<Longrightarrow> rev (remdups (rev xs)) = xs"
  by (simp add: distinct_remdups_id)

lemma allowFrom_example_plain:
  "saveTelegramAllowFrom ''222''
     (serving \<lparr>path = None, exists = Some True, valid = Some True, hash = Some ''h1'',
        config = Some (JObj [(''channels'', JObj [(''telegram'', JObj
           [(''allowFrom'', JArr [JStr ''111''])])])])\<rparr>)
     \<lparr>remote = (), issued = []\<rparr> =
   (Inr True,
    \<lparr>remote = (),
     issued = [ConfigGet,
               ConfigPatch ''h1''
                 (JObj [(''channels'', JObj [(''telegram'', JObj
                    [(''enabled'', JBool True), (''dmPolicy'', JStr ''allowlist''),
                     (''allowFrom'', JArr [JStr ''111'', JStr ''222''])])])])
                 ''Welcome: configure Telegram allowFrom'',
               ChannelsStatus 12000]\<rparr>)"
proof -
  have t: "trim ''h1'' = ''h1''" "trim ''111'' = ''111''" "trim ''222'' = ''222''"
    by (simp_all add: trim_def is_space_def)
  have n: "normalize_id ''222'' = ''222''"
    by (simp add: normalize_id_def strip_prefix_def t is_digit_def lower_def)
  show ?thesis
    by (simp add: saveTelegramAllowFrom_def loadConfig_def patch_with_base_def request_def
        serving_def baseHash_def existing_allowFrom_def allowFrom_patch_def get_prop_def
        unique_def set_add_def t n)
qed

lemma allowFrom_example_untidy:
  "saveTelegramAllowFrom '' TG:222 ''
     (serving \<lparr>path = None, exists = Some True, valid = Some True, hash = Some '' h1 '',
        config = Some (JObj [(''channels'', JObj [(''telegram'', JObj
           [(''botToken'', JStr ''t''),
            (''allowFrom'', JArr [JStr '' 111 '', JStr [], JNum 5, JStr ''111'', JNull])])])])\<rparr>)
     \<lparr>remote = (), issued = []\<rparr> =
   (Inr True,
    \<lparr>remote = (),
     issued = [ConfigGet,
               ConfigPatch ''h1''
                 (JObj [(''channels'', JObj [(''telegram'', JObj
                    [(''enabled'', JBool True), (''dmPolicy'', JStr ''allowlist''),
                     (''allowFrom'', JArr [JStr ''111'', JStr ''5'', JStr ''null'', JStr ''222''])])])])
                 ''Welcome: configure Telegram allowFrom'',
               ChannelsStatus 12000]\<rparr>)"
proof -
  have t: "trim '' h1 '' = ''h1''" "trim '' 111 '' = ''111''" "trim ''111'' = ''111''"
    "trim ''222'' = ''222''" "trim [] = []" "trim ''5'' = ''5''" "trim ''null'' = ''null''"
    "trim '' TG:222 '' = ''TG:222''"
    by (simp_all add: trim_def is_space_def)
  have f: "show_int 5 = ''5''"
    by (simp add: show_int_def show_nat.simps digit_char_def)
  have n: "normalize_id ''TG:222'' = ''222''"
    by (simp add: normalize_id_def strip_prefix_def t is_digit_def lower_def)
  show ?thesis
    by (simp add: saveTelegramAllowFrom_def loadConfig_def patch_with_base_def request_def
        serving_def baseHash_def existing_allowFrom_def allowFrom_patch_def get_prop_def
        unique_def set_add_def t n f)
qed

lemma allowFrom_example_no_section:
  "saveTelegramAllowFrom ''tg:abc''
     (serving \<lparr>path = None, exists = Some True, valid = Some True, hash = Some ''h1'',
        config = Some (JObj [])\<rparr>)
     \<lparr>remote = (), issued = []\<rparr> =
   (Inr True,
    \<lparr>remote = (),
     issued = [ConfigGet,
               ConfigPatch ''h1''
                 (JObj [(''channels'', JObj [(''telegram'', JObj
                    [(''enabled'', JBool True), (''dmPolicy'', JStr ''allowlist''),
                     (''allowFrom'', JArr [JStr ''tg:abc''])])])])
                 ''Welcome: configure Telegram allowFrom'',
               ChannelsStatus 12000]\<rparr>)"
proof -
  have t: "trim ''h1'' = ''h1''" "trim ''tg:abc'' = ''tg:abc''" "trim ''abc'' = ''abc''"
    by (simp_all add: trim_def is_space_def)
  have n: "normalize_id ''tg:abc'' = ''tg:abc''"
    by (simp add: normalize_id_def strip_prefix_def t is_digit_def lower_def)
  show ?thesis
    by (simp add: saveTelegramAllowFrom_def loadConfig_def patch_with_base_def request_def
        serving_def baseHash_def existing_allowFrom_def allowFrom_patch_def get_prop_def
        unique_def set_add_def t n)
qed


lemma uid_spelled:
  "normalize_id (trim telegramUserId) =
     (if trim (strip_prefix (trim telegramUserId)) \<noteq> [] \<and>
         list_all is_digit (trim (strip_prefix (trim telegramUserId)))
      then trim (strip_prefix (trim telegramUserId)) else trim telegramUserId)"
  by (simp add: normalize_id_def Let_def)

lemma allowFrom_submitted:
  assumes "trim telegramUserId \<noteq> []" and "gw (remote c) ConfigGet = (Inr (Snapshot snap), g1)"
    and "baseHash snap = Some h"
  shows "take 2 (new_requests c (snd (saveTelegramAllowFrom telegramUserId gw c))) =
           [ConfigGet,
            ConfigPatch h
              (JObj [(''channels'', JObj [(''telegram'', JObj
                 [(''enabled'', JBool True), (''dmPolicy'', JStr ''allowlist''),
                  (''allowFrom'', JArr (map JStr (rev (remdups (rev
                     ((case get_prop (getObject (get_prop (getObject (get_prop (getObject (config snap))
                               ''channels'')) ''telegram'')) ''allowFrom'' of
                         Some (JArr vs) \<Rightarrow> filter (\<lambda>s. s \<noteq> []) (map (\<lambda>v. trim (js_String v)) vs)
                       | _ \<Rightarrow> [])
                      @ [if trim (strip_prefix (trim telegramUserId)) \<noteq> [] \<and>
                            list_all is_digit (trim (strip_prefix (trim telegramUserId)))
                         then trim (strip_prefix (trim telegramUserId)) else trim telegramUserId]))))))])])])
              ''Welcome: configure Telegram allowFrom'']"
  using allowFrom_requests [of telegramUserId gw c snap g1 h] assms
  unfolding allowFrom_patch_def unique_first_occurrences existing_allowFrom_spelled uid_spelled
  by simp

text \<open>
  C7, as amended. For every snapshot with a base hash and every user id that is not blank, the
  flow submits the patch document \<open>{channels: {telegram: {enabled: true, dmPolicy: "allowlist",
  allowFrom}}}\<close> whose \<open>allowFrom\<close> is the list of the existing entries (each stringified and
  trimmed, empty ones dropped; none when the snapshot has no such array) followed by the
  normalised id, with the first occurrence of every entry kept and later ones removed; a blank
  id submits nothing. The normalised id is the trimmed id without its prefix \<open>telegram:\<close> or
  \<open>tg:\<close> (in either case) when what is left, trimmed, consists of digits, and the trimmed id
  otherwise; so a numeric id is normalised to its digits, with or without the prefix. Appending
  an id that is already present gives the existing entries without their duplicates, which is
  the existing list itself when that has no duplicates. Existing \<open>["111"]\<close> and the id
  \<open>222\<close> give \<open>["111", "222"]\<close>; existing \<open>[" 111 ", "", 5, "111", null]\<close> and the id
  \<open>TG:222\<close> between blanks give \<open>["111", "5", "null", "222"]\<close>; the id \<open>tg:abc\<close> and
  a configuration without a Telegram section give \<open>["tg:abc"]\<close>.
\<close>

theorem allowFrom_merge:
  "(let raw = trim telegramUserId;
        stripped = trim (strip_prefix raw);
        uid = (if stripped \<noteq> [] \<and> list_all is_digit stripped then stripped else raw);
        existing =
          (case get_prop (getObject (get_prop (getObject (get_prop (getObject (config snap))
                    ''channels'')) ''telegram'')) ''allowFrom'' of
             Some (JArr vs) \<Rightarrow> filter (\<lambda>s. s \<noteq> []) (map (\<lambda>v. trim (js_String v)) vs)
           | _ \<Rightarrow> [])
    in (raw \<noteq> [] \<and> gw (remote c) ConfigGet = (Inr (Snapshot snap), g1) \<and> baseHash snap = Some h \<longrightarrow>
          take 2 (new_requests c (snd (saveTelegramAllowFrom telegramUserId gw c))) =
            [ConfigGet,
             ConfigPatch h
               (JObj [(''channels'', JObj [(''telegram'', JObj
                  [(''enabled'', JBool True), (''dmPolicy'', JStr ''allowlist''),
                   (''allowFrom'', JArr (map JStr (rev (remdups (rev (existing @ [uid]))))))])])])
               ''Welcome: configure Telegram allowFrom''])
       \<and> (config snap = Some (JObj cfg) \<and> map_of cfg ''channels'' = Some (JObj channels) \<and>
           map_of channels ''telegram'' = Some (JObj telegram) \<and>
           map_of telegram ''allowFrom'' = Some (JArr items) \<longrightarrow>
             existing = filter (\<lambda>s. s \<noteq> []) (map (\<lambda>v. trim (js_String v)) items))
       \<and> rev (remdups (rev (existing @ [uid]))) =
           (if uid \<in> set existing then rev (remdups (rev existing))
            else rev (remdups (rev existing)) @ [uid])
       \<and> (distinct existing \<longrightarrow> rev (remdups (rev existing)) = existing)
       \<and> (distinct existing \<and> uid \<in> set existing \<longrightarrow> rev (remdups (rev (existing @ [uid]))) = existing)
       \<and> (raw = [] \<longrightarrow> saveTelegramAllowFrom telegramUserId gw c = (Inr False, c))
       \<and> (list_all is_digit ds \<and> ds \<noteq> [] \<and>
           telegramUserId \<in> {ds, ''tg:'' @ ds, ''TG:'' @ ds, ''telegram:'' @ ds} \<longrightarrow> uid = ds))
   \<and> saveTelegramAllowFrom ''222''
       (serving \<lparr>path = None, exists = Some True, valid = Some True, hash = Some ''h1'',
          config = Some (JObj [(''channels'', JObj [(''telegram'', JObj
             [(''allowFrom'', JArr [JStr ''111''])])])])\<rparr>)
       \<lparr>remote = (), issued = []\<rparr> =
     (Inr True,
      \<lparr>remote = (),
       issued = [ConfigGet,
                 ConfigPatch ''h1''
                   (JObj [(''channels'', JObj [(''telegram'', JObj
                      [(''enabled'', JBool True), (''dmPolicy'', JStr ''allowlist''),
                       (''allowFrom'', JArr [JStr ''111'', JStr ''222''])])])])
                   ''Welcome: configure Telegram allowFrom'',
                 ChannelsStatus 12000]\<rparr>)
   \<and> saveTelegramAllowFrom '' TG:222 ''
       (serving \<lparr>path = None, exists = Some True, valid = Some True, hash = Some '' h1 '',
          config = Some (JObj [(''channels'', JObj [(''telegram'', JObj
             [(''botToken'', JStr ''t''),
              (''allowFrom'', JArr [JStr '' 111 '', JStr [], JNum 5, JStr ''111'', JNull])])])])\<rparr>)
       \<lparr>remote = (), issued = []\<rparr> =
     (Inr True,
      \<lparr>remote = (),
       issued = [ConfigGet,
                 ConfigPatch ''h1''
                   (JObj [(''channels'', JObj [(''telegram'', JObj
                      [(''enabled'', JBool True), (''dmPolicy'', JStr ''allowlist''),
                       (''allowFrom'', JArr [JStr ''111'', JStr ''5'', JStr ''null'', JStr ''222''])])])])
                   ''Welcome: configure Telegram allowFrom'',
                 ChannelsStatus 12000]\<rparr>)
   \<and> saveTelegramAllowFrom ''tg:abc''
       (serving \<lparr>path = None, exists = Some True, valid = Some True, hash = Some ''h1'',
          config = Some (JObj [])\<rparr>)
       \<lparr>remote = (), issued = []\<rparr> =
     (Inr True,
      \<lparr>remote = (),
       issued = [ConfigGet,
                 ConfigPatch ''h1''
                   (JObj [(''channels'', JObj [(''telegram'', JObj
                      [(''enabled'', JBool True), (''dmPolicy'', JStr ''allowlist''),
                       (''allowFrom'', JArr [JStr ''tg:abc''])])])])
                   ''Welcome: configure Telegram allowFrom'',
                 ChannelsStatus 12000]\<rparr>)"
proof -
  have shaped: "config snap = Some (JObj cfg) \<and> map_of cfg ''channels'' = Some (JObj channels) \<and>
           map_of channels ''telegram'' = Some (JObj telegram) \<and>
           map_of telegram ''allowFrom'' = Some (JArr items) \<longrightarrow>
             (case get_prop (getObject (get_prop (getObject (get_prop (getObject (config snap))
                    ''channels'')) ''telegram'')) ''allowFrom'' of
                Some (JArr vs) \<Rightarrow> filter (\<lambda>s. s \<noteq> []) (map (\<lambda>v. trim (js_String v)) vs)
              | _ \<Rightarrow> []) = filter (\<lambda>s. s \<noteq> []) (map (\<lambda>v. trim (js_String v)) items)"
    by (simp add: get_prop_def)
  have digits: "list_all is_digit ds \<and> ds \<noteq> [] \<and>
           telegramUserId \<in> {ds, ''tg:'' @ ds, ''TG:'' @ ds, ''telegram:'' @ ds} \<longrightarrow>
        (if trim (strip_prefix (trim telegramUserId)) \<noteq> [] \<and>
            list_all is_digit (trim (strip_prefix (trim telegramUserId)))
         then trim (strip_prefix (trim telegramUserId)) else trim telegramUserId) = ds"
    using uid_digits [of ds telegramUserId] unfolding uid_spelled by blast
  have blank: "trim telegramUserId = [] \<longrightarrow> saveTelegramAllowFrom telegramUserId gw c = (Inr False, c)"
    by (simp add: allowFrom_blank)
  have submitted: "trim telegramUserId \<noteq> [] \<and> gw (remote c) ConfigGet = (Inr (Snapshot snap), g1) \<and>
      baseHash snap = Some h \<longrightarrow>
        take 2 (new_requests c (snd (saveTelegramAllowFrom telegramUserId gw c))) =
           [ConfigGet,
            ConfigPatch h
              (JObj [(''channels'', JObj [(''telegram'', JObj
                 [(''enabled'', JBool True), (''dmPolicy'', JStr ''allowlist''),
                  (''allowFrom'', JArr (map JStr (rev (remdups (rev
                     ((case get_prop (getObject (get_prop (getObject (get_prop (getObject (config snap))
                               ''channels'')) ''telegram'')) ''allowFrom'' of
                         Some (JArr vs) \<Rightarrow> filter (\<lambda>s. s \<noteq> []) (map (\<lambda>v. trim (js_String v)) vs)
                       | _ \<Rightarrow> [])
                      @ [if trim (strip_prefix (trim telegramUserId)) \<noteq> [] \<and>
                            list_all is_digit (trim (strip_prefix (trim telegramUserId)))
                         then trim (strip_prefix (trim telegramUserId)) else trim telegramUserId]))))))])])])
              ''Welcome: configure Telegram allowFrom'']"
    using allowFrom_submitted [of telegramUserId gw c snap g1 h] by blast
  have kept: "distinct xs \<longrightarrow> rev (remdups (rev xs)) = xs" for xs :: "string list"
    by (simp add: first_occurrences_distinct)
  have present: "distinct xs \<and> x \<in> set xs \<longrightarrow> rev (remdups (rev (xs @ [x]))) = xs"
    for xs :: "string list" and x
    by (simp add: first_occurrences_distinct)
  show ?thesis
    unfolding Let_def
    by (intro conjI first_occurrences_snoc allowFrom_example_plain allowFrom_example_untidy
        allowFrom_example_no_section shaped digits blank submitted kept present)
qed


theorem allowFrom_merge_witness:
  "trim ''tg:222'' \<noteq> []
   \<and> serving \<lparr>path = None, exists = Some True, valid = Some True, hash = Some ''h1'',
         config = Some (JObj [(''channels'', JObj [(''telegram'', JObj
            [(''allowFrom'', JArr [JStr ''111'', JStr ''222''])])])])\<rparr> () ConfigGet =
       (Inr (Snapshot \<lparr>path = None, exists = Some True, valid = Some True, hash = Some ''h1'',
          config = Some (JObj [(''channels'', JObj [(''telegram'', JObj
             [(''allowFrom'', JArr [JStr ''111'', JStr ''222''])])])])\<rparr>), ())
   \<and> baseHash \<lparr>path = None, exists = Some True, valid = Some True, hash = Some ''h1'',
         config = Some (JObj [(''channels'', JObj [(''telegram'', JObj
            [(''allowFrom'', JArr [JStr ''111'', JStr ''222''])])])])\<rparr> = Some ''h1''
   \<and> list_all is_digit ''222''
   \<and> distinct [''111'', ''222'']
   \<and> take 2 (new_requests \<lparr>remote = (), issued = []\<rparr>
        (snd (saveTelegramAllowFrom ''tg:222''
                (serving \<lparr>path = None, exists = Some True, valid = Some True, hash = Some ''h1'',
                   config = Some (JObj [(''channels'', JObj [(''telegram'', JObj
                      [(''allowFrom'', JArr [JStr ''111'', JStr ''222''])])])])\<rparr>)
                \<lparr>remote = (), issued = []\<rparr>))) =
       [ConfigGet,
        ConfigPatch ''h1''
          (JObj [(''channels'', JObj [(''telegram'', JObj
             [(''enabled'', JBool True), (''dmPolicy'', JStr ''allowlist''),
              (''allowFrom'', JArr [JStr ''111'', JStr ''222''])])])])
          ''Welcome: configure Telegram allowFrom'']
   \<and> trim ''  '' = []
   \<and> saveTelegramAllowFrom ''  '' (serving \<lparr>path = None, exists = None, valid = None, hash = None,
         config = None\<rparr>) \<lparr>remote = (), issued = []\<rparr> = (Inr False, \<lparr>remote = (), issued = []\<rparr>)"
proof -
  let ?snap = "\<lparr>path = None, exists = Some True, valid = Some True, hash = Some ''h1'',
         config = Some (JObj [(''channels'', JObj [(''telegram'', JObj
            [(''allowFrom'', JArr [JStr ''111'', JStr ''222''])])])])\<rparr>"
  have t: "trim ''tg:222'' = ''tg:222''" "trim ''h1'' = ''h1''" "trim ''111'' = ''111''"
      "trim ''222'' = ''222''" "trim ''  '' = []"
    by (simp_all add: trim_def is_space_def)
  have s: "strip_prefix ''tg:222'' = ''222''"
    by (simp add: strip_prefix_def lower_def)
  have d: "list_all is_digit ''222''"
    by (simp add: is_digit_def)
  have b: "baseHash ?snap = Some ''h1''"
    by (simp add: baseHash_def t)
  have g: "serving ?snap () ConfigGet = (Inr (Snapshot ?snap), ())"
    by (simp add: serving_def)
  have e: "(case get_prop (getObject (get_prop (getObject (get_prop (getObject (config ?snap))
                    ''channels'')) ''telegram'')) ''allowFrom'' of
             Some (JArr vs) \<Rightarrow> filter (\<lambda>s. s \<noteq> []) (map (\<lambda>v. trim (js_String v)) vs)
           | _ \<Rightarrow> []) = [''111'', ''222'']"
    by (simp add: get_prop_def t)
  from allowFrom_merge [where telegramUserId = "''tg:222''" and snap = ?snap and gw = "serving ?snap"
      and c = "\<lparr>remote = (), issued = []\<rparr>" and ?g1.0 = "()" and h = "''h1''" and ds = "''222''"]
  have "take 2 (new_requests \<lparr>remote = (), issued = []\<rparr>
        (snd (saveTelegramAllowFrom ''tg:222'' (serving ?snap) \<lparr>remote = (), issued = []\<rparr>))) =
       [ConfigGet,
        ConfigPatch ''h1''
          (JObj [(''channels'', JObj [(''telegram'', JObj
             [(''enabled'', JBool True), (''dmPolicy'', JStr ''allowlist''),
              (''allowFrom'', JArr [JStr ''111'', JStr ''222''])])])])
          ''Welcome: configure Telegram allowFrom'']"
    unfolding Let_def e t s using g b d by simp
  moreover
  from allowFrom_merge [where telegramUserId = "''  ''"
      and gw = "serving \<lparr>path = None, exists = None, valid = None, hash = None, config = None\<rparr>"
      and c = "\<lparr>remote = (), issued = []\<rparr>"]
  have "saveTelegramAllowFrom ''  '' (serving \<lparr>path = None, exists = None, valid = None, hash = None,
         config = None\<rparr>) \<lparr>remote = (), issued = []\<rparr> = (Inr False, \<lparr>remote = (), issued = []\<rparr>)"
    unfolding Let_def t by simp
  ultimately show ?thesis
    using t g b d by simp
qed

text \<open>
  The claim C7 as stated fails where the existing list holds an entry twice: the id \<open>111\<close> is
  already present in \<open>["111", "111"]\<close>, and the list submitted is \<open>["111"]\<close>, not the
  existing list.
\<close>

theorem allowFrom_existing_duplicates_dropped:
  "saveTelegramAllowFrom ''111''
     (serving \<lparr>path = None, exists = Some True, valid = Some True, hash = Some ''h1'',
        config = Some (JObj [(''channels'', JObj [(''telegram'', JObj
           [(''allowFrom'', JArr [JStr ''111'', JStr ''111''])])])])\<rparr>)
     \<lparr>remote = (), issued = []\<rparr> =
   (Inr True,
    \<lparr>remote = (),
     issued = [ConfigGet,
               ConfigPatch ''h1''
                 (JObj [(''channels'', JObj [(''telegram'', JObj
                    [(''enabled'', JBool True), (''dmPolicy'', JStr ''allowlist''),
                     (''allowFrom'', JArr [JStr ''111''])])])])
                 ''Welcome: configure Telegram allowFrom'',
               ChannelsStatus 12000]\<rparr>)
   \<and> JArr [JStr ''111''] \<noteq> JArr [JStr ''111'', JStr ''111'']"
proof -
  have t: "trim ''h1'' = ''h1''" "trim ''111'' = ''111''"
    by (simp_all add: trim_def is_space_def)
  have n: "normalize_id ''111'' = ''111''"
    by (simp add: normalize_id_def strip_prefix_def t is_digit_def lower_def)
  show ?thesis
    by (simp add: saveTelegramAllowFrom_def loadConfig_def patch_with_base_def request_def
        serving_def baseHash_def existing_allowFrom_def allowFrom_patch_def get_prop_def
        unique_def set_add_def t n)
qed

section \<open>Properties of the chat page's event handler\<close>




end
